theory Spec2Isabelle
  imports Complex_Main "HOL-Library.AList"
begin

section \<open>Exceptions of the Python runtime and of the libraries\<close>

text \<open>
  The training scripts define no exception class of their own. The only failures that
  the modelled code can produce are the built-in ones below; each raise of the source
  is an \<open>Inl\<close> branch of the model.
\<close>

datatype py_error = ZeroDivisionError | IndexError | KeyError | AxisError | ValueError

section \<open>Label vocabulary\<close>

text \<open>
  \<^verbatim>\<open>VOCAB\<close> of \<^verbatim>\<open>scripts/production_train.py\<close> (lines 72-93); the same twenty strings, in
  the same order, are repeated in \<^verbatim>\<open>train_colab_1m.py\<close> and \<^verbatim>\<open>train_colab_fixed.py\<close>.
\<close>

definition VOCAB :: "string list" where
  "VOCAB =
    [''x = 0'',
     ''y = 0'',
     ''x = y'',
     ''x = 1'',
     ''y = 1'',
     ''a = b = c = 1'',
     ''abc = 1 constraint'',
     ''Apply AM-GM'',
     ''Apply Cauchy-Schwarz'',
     ''Assume f is linear'',
     ''Assume f is injective'',
     ''Assume f is monotonic'',
     ''Check small cases'',
     ''Use modular arithmetic'',
     ''Homogenize'',
     ''WLOG assume ordering'',
     ''Substitute c = 1/(ab)'',
     ''y = f(x)'',
     ''x = -y'',
     ''Consider p = 2 separately'']"

definition NUM_LABELS :: nat where
  "NUM_LABELS = length VOCAB"

text \<open>
  A Python \<^verbatim>\<open>dict\<close> from label to index, kept as an association list in insertion
  order: storing under a key that is already present overwrites the value in place,
  storing under a new key appends, which is what \<open>AList.update\<close> does. Its length is
  Python's \<^verbatim>\<open>len\<close> of the dict; \<open>map_of\<close> is the lookup.
\<close>

type_synonym label_dict = "(string \<times> nat) list"

text \<open>
  The dict comprehension \<^verbatim>\<open>{v: i for i, v in enumerate(vocab)}\<close>: the pairs of
  \<^verbatim>\<open>enumerate(vocab)\<close> are stored one after the other, a later pair with the same
  label replacing the index stored earlier.
\<close>

definition build_vocab_to_idx :: "string list \<Rightarrow> label_dict" where
  "build_vocab_to_idx vocab = fold (\<lambda>(i, v) d. AList.update v i d) (enumerate 0 vocab) []"

text \<open>\<^verbatim>\<open>d[key]\<close>: raises \<^verbatim>\<open>KeyError\<close> on a missing key.\<close>

definition index_of :: "label_dict \<Rightarrow> string \<Rightarrow> py_error + nat" where
  "index_of d label = (case map_of d label of None \<Rightarrow> Inl KeyError | Some i \<Rightarrow> Inr i)"

text \<open>
  \<^verbatim>\<open>vocab[i]\<close> for an index \<open>i \<ge> 0\<close> (as in \<^verbatim>\<open>predict\<close>, line 695): raises
  \<^verbatim>\<open>IndexError\<close> out of range.
\<close>

definition label_at :: "string list \<Rightarrow> nat \<Rightarrow> py_error + string" where
  "label_at vocab i = (if i < length vocab then Inr (vocab ! i) else Inl IndexError)"

section \<open>Datasets\<close>

text \<open>
  The tokenizer is an external collaborator. It is kept as the function it is called as:
  text and \<^verbatim>\<open>max_length\<close> in, \<^verbatim>\<open>input_ids\<close> and \<^verbatim>\<open>attention_mask\<close> out.
\<close>

type_synonym tokenizer = "string \<Rightarrow> nat \<Rightarrow> int list \<times> int list"

definition blank_tokenizer :: tokenizer where
  "blank_tokenizer text n = (replicate n 0, replicate n 0)"

text \<open>An item of \<^verbatim>\<open>DATA\<close> in \<^verbatim>\<open>production_train.py\<close>: \<^verbatim>\<open>{"text": ..., "subs": [...]}\<close>.\<close>

record imo_item =
  text_of :: string
  subs_of :: "string list"

text \<open>\<^verbatim>\<open>IMODataset\<close> (\<^verbatim>\<open>production_train.py\<close>, lines 398-433).\<close>

record IMODataset =
  ds_data :: "imo_item list"
  ds_tokenizer :: tokenizer
  ds_vocab :: "string list"
  ds_max_length :: nat
  ds_vocab_to_idx :: label_dict

text \<open>\<^verbatim>\<open>IMODataset.__init__\<close>: five assignments, no check and no raise.\<close>

definition IMODataset_init :: "imo_item list \<Rightarrow> tokenizer \<Rightarrow> string list \<Rightarrow> nat \<Rightarrow> IMODataset" where
  "IMODataset_init data tokenizer vocab max_length =
     \<lparr>ds_data = data, ds_tokenizer = tokenizer, ds_vocab = vocab, ds_max_length = max_length,
      ds_vocab_to_idx = build_vocab_to_idx vocab\<rparr>"

text \<open>
  The labelling loop shared by every dataset class:
  \<^verbatim>\<open>for sub in subs: if sub in vocab_to_idx: label[vocab_to_idx[sub]] = 1.0\<close>.
  A tensor store at an index past the end raises \<^verbatim>\<open>IndexError\<close>.
\<close>

fun mark_labels :: "label_dict \<Rightarrow> string list \<Rightarrow> real list \<Rightarrow> py_error + real list" where
  "mark_labels d [] label = Inr label"
| "mark_labels d (sub # subs) label =
     (case map_of d sub of
        None \<Rightarrow> mark_labels d subs label
      | Some i \<Rightarrow>
          if i < length label then mark_labels d subs (label[i := 1])
          else Inl IndexError)"

text \<open>
  The label part of \<^verbatim>\<open>IMODataset.__getitem__\<close> (lines 423-427):
  \<^verbatim>\<open>label = torch.zeros(len(self.vocab))\<close>, then the labelling loop.
\<close>

definition imo_label_vector :: "IMODataset \<Rightarrow> string list \<Rightarrow> py_error + real list" where
  "imo_label_vector ds subs = mark_labels (ds_vocab_to_idx ds) subs (replicate (length (ds_vocab ds)) 0)"

record encoded_example =
  input_ids :: "int list"
  attention_mask :: "int list"
  labels :: "real list"

text \<open>\<^verbatim>\<open>IMODataset.__getitem__\<close> for an index \<open>idx \<ge> 0\<close>.\<close>

definition IMODataset_getitem :: "IMODataset \<Rightarrow> nat \<Rightarrow> py_error + encoded_example" where
  "IMODataset_getitem ds idx =
     (if idx < length (ds_data ds) then
        (let item = ds_data ds ! idx;
             encoding = ds_tokenizer ds (text_of item) (ds_max_length ds)
         in case imo_label_vector ds (subs_of item) of
              Inl e \<Rightarrow> Inl e
            | Inr label \<Rightarrow>
                Inr \<lparr>input_ids = fst encoding, attention_mask = snd encoding, labels = label\<rparr>)
      else Inl IndexError)"

text \<open>
  An item of the synthetic data set: \<^verbatim>\<open>item["statement"]\<close> and
  \<^verbatim>\<open>item.get("substitutions", [])\<close>, so the label list may be absent.
\<close>

record synthetic_item =
  statement :: string
  substitutions :: "string list option"

text \<open>
  \<^verbatim>\<open>SyntheticMathDataset\<close> (\<^verbatim>\<open>train_colab_1m.py\<close>, lines 67-100; \<^verbatim>\<open>MathDataset\<close> of
  \<^verbatim>\<open>train_colab_fixed.py\<close> is the same class). It does not keep the vocabulary list.
\<close>

record SyntheticMathDataset =
  sds_data :: "synthetic_item list"
  sds_tokenizer :: tokenizer
  sds_vocab_to_idx :: label_dict
  sds_max_length :: nat

definition SyntheticMathDataset_init ::
  "synthetic_item list \<Rightarrow> tokenizer \<Rightarrow> string list \<Rightarrow> nat \<Rightarrow> SyntheticMathDataset" where
  "SyntheticMathDataset_init data tokenizer vocab max_length =
     \<lparr>sds_data = data, sds_tokenizer = tokenizer, sds_vocab_to_idx = build_vocab_to_idx vocab,
      sds_max_length = max_length\<rparr>"

text \<open>
  The label part of \<^verbatim>\<open>SyntheticMathDataset.__getitem__\<close> (lines 82-86):
  \<^verbatim>\<open>labels = torch.zeros(len(self.vocab_to_idx))\<close>, sized by the dict, then the loop.
\<close>

definition synthetic_label_vector :: "SyntheticMathDataset \<Rightarrow> string list \<Rightarrow> py_error + real list" where
  "synthetic_label_vector ds subs =
     mark_labels (sds_vocab_to_idx ds) subs (replicate (length (sds_vocab_to_idx ds)) 0)"

definition SyntheticMathDataset_getitem :: "SyntheticMathDataset \<Rightarrow> nat \<Rightarrow> py_error + encoded_example" where
  "SyntheticMathDataset_getitem ds idx =
     (if idx < length (sds_data ds) then
        (let item = sds_data ds ! idx;
             subs = (case substitutions item of None \<Rightarrow> [] | Some l \<Rightarrow> l)
         in case synthetic_label_vector ds subs of
              Inl e \<Rightarrow> Inl e
            | Inr label \<Rightarrow>
                (let encoding = sds_tokenizer ds (statement item) (sds_max_length ds)
                 in Inr \<lparr>input_ids = fst encoding, attention_mask = snd encoding, labels = label\<rparr>))
      else Inl IndexError)"

section \<open>Facts about the label dict\<close>

lemma build_vocab_to_idx_snoc:
  "build_vocab_to_idx (vs @ [v]) = AList.update v (length vs) (build_vocab_to_idx vs)"
  by (simp add: build_vocab_to_idx_def enumerate_append_eq)

lemma build_vocab_to_idx_Nil: "build_vocab_to_idx [] = []"
  by (simp add: build_vocab_to_idx_def)

text \<open>The dict maps a label to the last position at which the vocabulary holds it.\<close>

lemma map_of_build_vocab_to_idx:
  "map_of (build_vocab_to_idx vs) s = Some j \<longleftrightarrow>
     j < length vs \<and> vs ! j = s \<and> (\<forall>k. j < k \<and> k < length vs \<longrightarrow> vs ! k \<noteq> s)"
proof (induction vs arbitrary: j rule: rev_induct)
  case Nil
  show ?case by (simp add: build_vocab_to_idx_Nil)
next
  case (snoc v vs)
  show ?case
  proof (cases "v = s")
    case True
    have "map_of (build_vocab_to_idx (vs @ [v])) s = Some (length vs)"
      using True by (simp add: build_vocab_to_idx_snoc update_conv')
    moreover have "(j < length (vs @ [v]) \<and> (vs @ [v]) ! j = s \<and>
        (\<forall>k. j < k \<and> k < length (vs @ [v]) \<longrightarrow> (vs @ [v]) ! k \<noteq> s)) \<longleftrightarrow> j = length vs"
    proof
      assume a: "j < length (vs @ [v]) \<and> (vs @ [v]) ! j = s \<and>
        (\<forall>k. j < k \<and> k < length (vs @ [v]) \<longrightarrow> (vs @ [v]) ! k \<noteq> s)"
      show "j = length vs"
      proof (rule ccontr)
        assume "j \<noteq> length vs"
        with a have "j < length vs" by simp
        moreover from a have "\<forall>k. j < k \<and> k < length (vs @ [v]) \<longrightarrow> (vs @ [v]) ! k \<noteq> s"
          by blast
        ultimately have "(vs @ [v]) ! length vs \<noteq> s"
          by (metis length_append_singleton lessI)
        with True show False by simp
      qed
    next
      assume "j = length vs"
      with True show "j < length (vs @ [v]) \<and> (vs @ [v]) ! j = s \<and>
        (\<forall>k. j < k \<and> k < length (vs @ [v]) \<longrightarrow> (vs @ [v]) ! k \<noteq> s)"
        by auto
    qed
    ultimately show ?thesis by auto
  next
    case False
    have "map_of (build_vocab_to_idx (vs @ [v])) s = map_of (build_vocab_to_idx vs) s"
      using False by (simp add: build_vocab_to_idx_snoc update_conv')
    moreover have "(j < length (vs @ [v]) \<and> (vs @ [v]) ! j = s \<and>
        (\<forall>k. j < k \<and> k < length (vs @ [v]) \<longrightarrow> (vs @ [v]) ! k \<noteq> s)) \<longleftrightarrow>
        (j < length vs \<and> vs ! j = s \<and> (\<forall>k. j < k \<and> k < length vs \<longrightarrow> vs ! k \<noteq> s))"
      using False by (auto simp: nth_append less_Suc_eq)
    ultimately show ?thesis using snoc.IH by simp
  qed
qed

lemma map_of_build_vocab_to_idx_None:
  "map_of (build_vocab_to_idx vs) s = None \<longleftrightarrow> s \<notin> set vs"
proof (induction vs rule: rev_induct)
  case Nil
  show ?case by (simp add: build_vocab_to_idx_Nil)
next
  case (snoc v vs)
  then show ?case by (simp add: build_vocab_to_idx_snoc update_conv')
qed

lemma build_vocab_to_idx_range:
  "map_of (build_vocab_to_idx vs) s = Some j \<Longrightarrow> j < length vs"
  by (simp add: map_of_build_vocab_to_idx)

section \<open>Round trip between labels and indices\<close>

text \<open>
  C9. For every label of the vocabulary, the dict built by the data set gives an index
  (no \<^verbatim>\<open>KeyError\<close>), the index is in range (no \<^verbatim>\<open>IndexError\<close>), and the vocabulary
  holds that very label there: \<open>label_at (index_of label) = label\<close>. This holds for
  any vocabulary list; the dict read is the one \<^verbatim>\<open>IMODataset.__init__\<close> stores.
\<close>

theorem label_index_round_trip:
  assumes "label \<in> set vocab"
  shows "\<exists>i. index_of (ds_vocab_to_idx (IMODataset_init data tok vocab ml)) label = Inr i
           \<and> label_at vocab i = Inr label"
proof -
  from assms have "map_of (build_vocab_to_idx vocab) label \<noteq> None"
    by (simp add: map_of_build_vocab_to_idx_None)
  then obtain i where i: "map_of (build_vocab_to_idx vocab) label = Some i" by blast
  then have "i < length vocab" and "vocab ! i = label"
    by (simp_all add: map_of_build_vocab_to_idx)
  with i show ?thesis
    by (simp add: index_of_def label_at_def IMODataset_init_def)
qed

theorem label_index_round_trip_witness:
  "''Homogenize'' \<in> set VOCAB
   \<and> (\<exists>i. index_of (ds_vocab_to_idx (IMODataset_init [] blank_tokenizer VOCAB 256)) ''Homogenize'' = Inr i
          \<and> label_at VOCAB i = Inr ''Homogenize'')"
proof -
  have h: "''Homogenize'' \<in> set VOCAB" by (simp add: VOCAB_def)
  show ?thesis using h label_index_round_trip [OF h] by simp
qed


section \<open>Size and keys of the label dict\<close>

lemma build_vocab_to_idx_keys_distinct: "distinct (map fst (build_vocab_to_idx vs))"
proof (induction vs rule: rev_induct)
  case Nil
  show ?case by (simp add: build_vocab_to_idx_Nil)
next
  case (snoc v vs)
  then show ?case by (simp add: build_vocab_to_idx_snoc distinct_update)
qed

lemma build_vocab_to_idx_keys_set: "set (map fst (build_vocab_to_idx vs)) = set vs"
proof (induction vs rule: rev_induct)
  case Nil
  show ?case by (simp add: build_vocab_to_idx_Nil)
next
  case (snoc v vs)
  have "fst ` set (AList.update v (length vs) (build_vocab_to_idx vs))
          = {v} \<union> fst ` set (build_vocab_to_idx vs)"
    by (rule dom_update)
  with snoc show ?case by (simp add: build_vocab_to_idx_snoc)
qed

lemma length_build_vocab_to_idx: "length (build_vocab_to_idx vs) = card (set vs)"
proof -
  have "length (build_vocab_to_idx vs) = length (map fst (build_vocab_to_idx vs))" by simp
  also have "\<dots> = card (set (map fst (build_vocab_to_idx vs)))"
    using build_vocab_to_idx_keys_distinct [of vs] by (simp only: distinct_card)
  also have "\<dots> = card (set vs)" by (simp only: build_vocab_to_idx_keys_set)
  finally show ?thesis .
qed

lemma map_of_build_vocab_to_idx_last:
  assumes "label \<in> set vocab"
  shows "\<exists>j. map_of (build_vocab_to_idx vocab) label = Some j \<and> j < length vocab
             \<and> vocab ! j = label \<and> label \<notin> set (drop (Suc j) vocab)"
proof -
  from assms have "map_of (build_vocab_to_idx vocab) label \<noteq> None"
    by (simp add: map_of_build_vocab_to_idx_None)
  then obtain j where j: "map_of (build_vocab_to_idx vocab) label = Some j" by blast
  then have lt: "j < length vocab" and at: "vocab ! j = label"
    and later: "\<forall>k. j < k \<and> k < length vocab \<longrightarrow> vocab ! k \<noteq> label"
    by (simp_all add: map_of_build_vocab_to_idx)
  have "label \<notin> set (drop (Suc j) vocab)"
  proof
    assume "label \<in> set (drop (Suc j) vocab)"
    then obtain m where m: "m < length (drop (Suc j) vocab)" "drop (Suc j) vocab ! m = label"
      by (auto simp: in_set_conv_nth)
    then have "Suc j + m < length vocab" and "vocab ! (Suc j + m) = label" by auto
    with later show False by (metis add_Suc less_add_Suc1)
  qed
  with j lt at show ?thesis by blast
qed

section \<open>Duplicate labels in the vocabulary\<close>

text \<open>
  C8 (as the code has it). Neither \<^verbatim>\<open>IMODataset.__init__\<close> nor
  \<^verbatim>\<open>SyntheticMathDataset.__init__\<close> inspects the vocabulary: construction returns a
  data set for every vocabulary list, and nothing is raised. The dict both store has one
  entry per distinct label, and a label is mapped to the last position at which the
  vocabulary holds it, so the occurrences of a repeated label share that one index.
\<close>

theorem duplicate_labels_collapse_to_last_index:
  assumes "label \<in> set vocab"
  shows "sds_vocab_to_idx (SyntheticMathDataset_init sdata tok vocab ml)
           = ds_vocab_to_idx (IMODataset_init data tok vocab ml)
         \<and> length (ds_vocab_to_idx (IMODataset_init data tok vocab ml)) = card (set vocab)
         \<and> (\<exists>j. index_of (ds_vocab_to_idx (IMODataset_init data tok vocab ml)) label = Inr j
                \<and> j < length vocab \<and> vocab ! j = label \<and> label \<notin> set (drop (Suc j) vocab))"
proof -
  from map_of_build_vocab_to_idx_last [OF assms]
  obtain j where "map_of (build_vocab_to_idx vocab) label = Some j" "j < length vocab"
    "vocab ! j = label" "label \<notin> set (drop (Suc j) vocab)" by blast
  then show ?thesis
    by (simp add: IMODataset_init_def SyntheticMathDataset_init_def index_of_def
        length_build_vocab_to_idx)
qed

theorem duplicate_labels_collapse_to_last_index_witness:
  "''x = 0'' \<in> set [''x = 0'', ''y = 0'', ''x = 0'']
   \<and> length (ds_vocab_to_idx (IMODataset_init [] blank_tokenizer [''x = 0'', ''y = 0'', ''x = 0''] 256)) = 2
   \<and> index_of (ds_vocab_to_idx (IMODataset_init [] blank_tokenizer [''x = 0'', ''y = 0'', ''x = 0''] 256))
        ''x = 0'' = Inr 2"
proof -
  have h: "''x = 0'' \<in> set [''x = 0'', ''y = 0'', ''x = 0'']" by simp
  have c: "length (ds_vocab_to_idx (IMODataset_init [] blank_tokenizer [''x = 0'', ''y = 0'', ''x = 0''] 256)) = 2"
    by (simp add: IMODataset_init_def build_vocab_to_idx_def)
  have e: "index_of (ds_vocab_to_idx (IMODataset_init [] blank_tokenizer [''x = 0'', ''y = 0'', ''x = 0''] 256))
        ''x = 0'' = Inr 2"
    by (simp add: IMODataset_init_def build_vocab_to_idx_def index_of_def)
  show ?thesis
    using h c e duplicate_labels_collapse_to_last_index [OF h, of "[]" blank_tokenizer 256 "[]"]
    by simp
qed

text \<open>
  C8 (as stated) fails: a vocabulary that holds \<^verbatim>\<open>"x = 0"\<close> twice is accepted. The data
  set is built, its dict has the single entry \<^verbatim>\<open>"x = 0" -> 1\<close>, and the label vector
  of an example tagged \<^verbatim>\<open>"x = 0"\<close> is produced, with position 0 left at zero.
\<close>

theorem duplicate_vocab_accepted_counterexample:
  "ds_vocab_to_idx (IMODataset_init [] blank_tokenizer [''x = 0'', ''x = 0''] 256) = [(''x = 0'', 1)]
   \<and> imo_label_vector (IMODataset_init [] blank_tokenizer [''x = 0'', ''x = 0''] 256) [''x = 0'']
       = Inr [0, 1]"
  by (simp add: IMODataset_init_def build_vocab_to_idx_def imo_label_vector_def)

section \<open>Multi-hot label vectors\<close>

lemma mark_labels_result:
  assumes "\<forall>s j. map_of d s = Some j \<longrightarrow> j < length label"
  shows "\<exists>lv. mark_labels d subs label = Inr lv \<and> length lv = length label
           \<and> (\<forall>j<length label. lv ! j = (if \<exists>s\<in>set subs. map_of d s = Some j then 1 else label ! j))"
  using assms
proof (induction subs arbitrary: label)
  case Nil
  show ?case by simp
next
  case (Cons sub subs)
  show ?case
  proof (cases "map_of d sub")
    case None
    from Cons.IH [OF Cons.prems] obtain lv where lv: "mark_labels d subs label = Inr lv"
      "length lv = length label"
      "\<forall>j<length label. lv ! j = (if \<exists>s\<in>set subs. map_of d s = Some j then 1 else label ! j)"
      by blast
    from None have "\<And>j. (\<exists>s\<in>set (sub # subs). map_of d s = Some j) = (\<exists>s\<in>set subs. map_of d s = Some j)"
      by auto
    with lv None show ?thesis by simp
  next
    case (Some i)
    with Cons.prems have i: "i < length label" by blast
    have "\<forall>s j. map_of d s = Some j \<longrightarrow> j < length (label[i := 1])"
      using Cons.prems by simp
    from Cons.IH [OF this] obtain lv where lv: "mark_labels d subs (label[i := 1]) = Inr lv"
      "length lv = length label"
      "\<forall>j<length label. lv ! j =
          (if \<exists>s\<in>set subs. map_of d s = Some j then 1 else (label[i := 1]) ! j)"
      by auto
    have "\<forall>j<length label. lv ! j =
          (if \<exists>s\<in>set (sub # subs). map_of d s = Some j then 1 else label ! j)"
    proof (intro allI impI)
      fix j assume j: "j < length label"
      show "lv ! j = (if \<exists>s\<in>set (sub # subs). map_of d s = Some j then 1 else label ! j)"
      proof (cases "j = i")
        case True
        with lv(3) j i Some show ?thesis by auto
      next
        case False
        with Some have "(\<exists>s\<in>set (sub # subs). map_of d s = Some j) = (\<exists>s\<in>set subs. map_of d s = Some j)"
          by auto
        with lv(3) j False show ?thesis by simp
      qed
    qed
    with lv Some i show ?thesis by simp
  qed
qed

text \<open>Labels outside the dict leave no trace: dropping them first changes nothing.\<close>

lemma mark_labels_filter:
  "mark_labels d (filter (\<lambda>s. map_of d s \<noteq> None) subs) label = mark_labels d subs label"
  by (induction subs arbitrary: label) (auto split: option.splits)

lemma distinct_length_build_vocab_to_idx:
  "distinct vocab \<Longrightarrow> length (build_vocab_to_idx vocab) = length vocab"
  by (simp add: length_build_vocab_to_idx distinct_card)

lemma distinct_VOCAB: "distinct VOCAB"
  by (simp add: VOCAB_def)


lemma distinct_vocab_hit:
  assumes "distinct vocab" and "j < length vocab"
  shows "(\<exists>s\<in>set subs. map_of (build_vocab_to_idx vocab) s = Some j) \<longleftrightarrow> vocab ! j \<in> set subs"
proof
  assume "\<exists>s\<in>set subs. map_of (build_vocab_to_idx vocab) s = Some j"
  then obtain s where "s \<in> set subs" "map_of (build_vocab_to_idx vocab) s = Some j" by blast
  then show "vocab ! j \<in> set subs" by (simp add: map_of_build_vocab_to_idx)
next
  assume m: "vocab ! j \<in> set subs"
  have "map_of (build_vocab_to_idx vocab) (vocab ! j) = Some j"
    using assms by (auto simp: map_of_build_vocab_to_idx nth_eq_iff_index_eq)
  with m show "\<exists>s\<in>set subs. map_of (build_vocab_to_idx vocab) s = Some j" by blast
qed

lemma mark_labels_multi_hot:
  assumes "distinct vocab"
  shows "\<exists>lv. mark_labels (build_vocab_to_idx vocab) subs (replicate (length vocab) 0) = Inr lv
           \<and> length lv = length vocab
           \<and> (\<forall>i<length vocab. lv ! i = (if vocab ! i \<in> set subs then 1 else 0))"
proof -
  have "\<forall>s j. map_of (build_vocab_to_idx vocab) s = Some j \<longrightarrow> j < length (replicate (length vocab) (0::real))"
    by (simp add: map_of_build_vocab_to_idx)
  from mark_labels_result [OF this, of subs]
  obtain lv where lv: "mark_labels (build_vocab_to_idx vocab) subs (replicate (length vocab) 0) = Inr lv"
    "length lv = length vocab"
    "\<forall>j<length vocab. lv ! j =
        (if \<exists>s\<in>set subs. map_of (build_vocab_to_idx vocab) s = Some j then 1
         else replicate (length vocab) 0 ! j)"
    by auto
  have "\<forall>i<length vocab. lv ! i = (if vocab ! i \<in> set subs then 1 else 0)"
    using lv(3) distinct_vocab_hit [OF assms] by simp
  with lv show ?thesis by blast
qed

lemma mark_labels_known_only:
  "mark_labels (build_vocab_to_idx vocab) (filter (\<lambda>s. s \<in> set vocab) subs) label
     = mark_labels (build_vocab_to_idx vocab) subs label"
proof -
  have "(\<lambda>s. s \<in> set vocab) = (\<lambda>s. map_of (build_vocab_to_idx vocab) s \<noteq> None)"
    by (simp add: map_of_build_vocab_to_idx_None)
  then show ?thesis by (simp only: mark_labels_filter)
qed

text \<open>
  C2. Over a vocabulary of distinct labels (as \<^verbatim>\<open>VOCAB\<close> is), reading an example
  from either dataset class never raises and gives a label vector of the vocabulary's
  length whose entry \<open>i\<close> is 1 when \<open>vocab[i]\<close> is among the example's tactics and 0
  otherwise. Tactics outside the vocabulary are passed over: the vector is the one
  obtained from the tactic list with those strings removed, so an unknown label sets
  no entry.
\<close>

theorem label_vector_multi_hot:
  assumes "distinct vocab" and "idx < length data" and "sidx < length sdata"
  shows "\<exists>ex sex.
            IMODataset_getitem (IMODataset_init data tok vocab ml) idx = Inr ex
          \<and> SyntheticMathDataset_getitem (SyntheticMathDataset_init sdata tok vocab ml) sidx = Inr sex
          \<and> length (labels ex) = length vocab \<and> length (labels sex) = length vocab
          \<and> (\<forall>i<length vocab.
                labels ex ! i = (if vocab ! i \<in> set (subs_of (data ! idx)) then 1 else 0)
              \<and> labels sex ! i =
                  (if vocab ! i \<in> set (case substitutions (sdata ! sidx) of None \<Rightarrow> [] | Some l \<Rightarrow> l)
                   then 1 else 0))
          \<and> imo_label_vector (IMODataset_init data tok vocab ml)
                (filter (\<lambda>s. s \<in> set vocab) (subs_of (data ! idx))) = Inr (labels ex)
          \<and> synthetic_label_vector (SyntheticMathDataset_init sdata tok vocab ml)
                (filter (\<lambda>s. s \<in> set vocab)
                   (case substitutions (sdata ! sidx) of None \<Rightarrow> [] | Some l \<Rightarrow> l)) = Inr (labels sex)"
proof -
  define subs where "subs = subs_of (data ! idx)"
  define ssubs where "ssubs = (case substitutions (sdata ! sidx) of None \<Rightarrow> [] | Some l \<Rightarrow> l)"
  from mark_labels_multi_hot [OF assms(1), of subs]
  obtain lv where lv: "mark_labels (build_vocab_to_idx vocab) subs (replicate (length vocab) 0) = Inr lv"
    "length lv = length vocab"
    "\<forall>i<length vocab. lv ! i = (if vocab ! i \<in> set subs then 1 else 0)"
    by blast
  from mark_labels_multi_hot [OF assms(1), of ssubs]
  obtain slv where slv: "mark_labels (build_vocab_to_idx vocab) ssubs (replicate (length vocab) 0) = Inr slv"
    "length slv = length vocab"
    "\<forall>i<length vocab. slv ! i = (if vocab ! i \<in> set ssubs then 1 else 0)"
    by blast
  have len: "length (build_vocab_to_idx vocab) = length vocab"
    using assms(1) by (rule distinct_length_build_vocab_to_idx)
  have g: "IMODataset_getitem (IMODataset_init data tok vocab ml) idx
      = Inr \<lparr>input_ids = fst (tok (text_of (data ! idx)) ml),
             attention_mask = snd (tok (text_of (data ! idx)) ml), labels = lv\<rparr>"
    using assms(2) lv(1)
    by (simp add: IMODataset_getitem_def IMODataset_init_def imo_label_vector_def subs_def Let_def)
  have sg: "SyntheticMathDataset_getitem (SyntheticMathDataset_init sdata tok vocab ml) sidx
      = Inr \<lparr>input_ids = fst (tok (statement (sdata ! sidx)) ml),
             attention_mask = snd (tok (statement (sdata ! sidx)) ml), labels = slv\<rparr>"
    using assms(3) slv(1) len
    by (simp add: SyntheticMathDataset_getitem_def SyntheticMathDataset_init_def
        synthetic_label_vector_def ssubs_def Let_def)
  have f: "imo_label_vector (IMODataset_init data tok vocab ml) (filter (\<lambda>s. s \<in> set vocab) subs) = Inr lv"
    using lv(1) by (simp add: imo_label_vector_def IMODataset_init_def mark_labels_known_only)
  have sf: "synthetic_label_vector (SyntheticMathDataset_init sdata tok vocab ml)
      (filter (\<lambda>s. s \<in> set vocab) ssubs) = Inr slv"
    using slv(1) len
    by (simp add: synthetic_label_vector_def SyntheticMathDataset_init_def mark_labels_known_only)
  show ?thesis
    unfolding subs_def [symmetric] ssubs_def [symmetric]
    using g sg f sf lv(2,3) slv(2,3) by (simp add: subs_def ssubs_def)
qed

definition sample_imo_data :: "imo_item list" where
  "sample_imo_data =
     [\<lparr>text_of = ''Find all functions f: R to R such that f(x + y) = f(x) + f(y) for all x, y.'',
       subs_of = [''x = 0'', ''y = 0'', ''Assume f is linear'', ''Try induction'']\<rparr>]"

definition sample_synthetic_data :: "synthetic_item list" where
  "sample_synthetic_data =
     [\<lparr>statement = ''Prove that a^2 + b^2 >= 2ab.'', substitutions = Some [''Apply AM-GM'', ''x = y'']\<rparr>,
      \<lparr>statement = ''Find all primes p.'', substitutions = None\<rparr>]"


theorem label_vector_multi_hot_witness:
  "distinct VOCAB \<and> (0::nat) < length sample_imo_data \<and> (1::nat) < length sample_synthetic_data
   \<and> (\<exists>ex sex.
          IMODataset_getitem (IMODataset_init sample_imo_data blank_tokenizer VOCAB 256) 0 = Inr ex
        \<and> SyntheticMathDataset_getitem
              (SyntheticMathDataset_init sample_synthetic_data blank_tokenizer VOCAB 256) 1 = Inr sex
        \<and> length (labels ex) = length VOCAB \<and> length (labels sex) = length VOCAB)
   \<and> imo_label_vector (IMODataset_init sample_imo_data blank_tokenizer VOCAB 256)
        (subs_of (sample_imo_data ! 0))
       = Inr [1, 1, 0, 0, 0, 0, 0, 0, 0, 1, 0, 0, 0, 0, 0, 0, 0, 0, 0, 0]"
proof -
  have h1: "distinct VOCAB" by (rule distinct_VOCAB)
  have h2: "(0::nat) < length sample_imo_data" by (simp add: sample_imo_data_def)
  have h3: "(1::nat) < length sample_synthetic_data" by (simp add: sample_synthetic_data_def)
  have v: "imo_label_vector (IMODataset_init sample_imo_data blank_tokenizer VOCAB 256)
        (subs_of (sample_imo_data ! 0))
       = Inr [1, 1, 0, 0, 0, 0, 0, 0, 0, 1, 0, 0, 0, 0, 0, 0, 0, 0, 0, 0]"
    by (simp add: imo_label_vector_def IMODataset_init_def build_vocab_to_idx_def VOCAB_def
        sample_imo_data_def)
  from label_vector_multi_hot [OF h1 h2 h3, of blank_tokenizer 256]
  have "\<exists>ex sex.
          IMODataset_getitem (IMODataset_init sample_imo_data blank_tokenizer VOCAB 256) 0 = Inr ex
        \<and> SyntheticMathDataset_getitem
              (SyntheticMathDataset_init sample_synthetic_data blank_tokenizer VOCAB 256) 1 = Inr sex
        \<and> length (labels ex) = length VOCAB \<and> length (labels sex) = length VOCAB"
    by blast
  with h1 h2 h3 v show ?thesis by blast
qed


section \<open>Loss values\<close>

text \<open>
  A loss is a floating-point number, and the claims about numeric failure need its
  non-finite values: a loss is a finite number, plus or minus infinity, or NaN. On finite
  values the arithmetic is the exact one of the reals (rounding and overflow of finite
  results are left out); on the other values it is IEEE 754's.
\<close>

datatype fval = Fin real | PInf | NInf | NaN

text \<open>
  \<^verbatim>\<open>loss / accumulation_steps\<close>: a tensor divided by a Python \<^verbatim>\<open>int\<close>. Tensor division
  never raises; dividing by zero gives an infinity or NaN.
\<close>

fun tensor_div_int :: "fval \<Rightarrow> int \<Rightarrow> fval" where
  "tensor_div_int (Fin x) k =
     (if k = 0 then (if 0 < x then PInf else if x < 0 then NInf else NaN)
      else Fin (x / real_of_int k))"
| "tensor_div_int PInf k = (if k < 0 then NInf else PInf)"
| "tensor_div_int NInf k = (if k < 0 then PInf else NInf)"
| "tensor_div_int NaN k = NaN"

text \<open>\<^verbatim>\<open>loss.item() * accumulation_steps\<close>: a Python \<^verbatim>\<open>float\<close> times an \<^verbatim>\<open>int\<close>.\<close>

fun float_mul_int :: "fval \<Rightarrow> int \<Rightarrow> fval" where
  "float_mul_int (Fin x) k = Fin (x * real_of_int k)"
| "float_mul_int PInf k = (if k = 0 then NaN else if k < 0 then NInf else PInf)"
| "float_mul_int NInf k = (if k = 0 then NaN else if k < 0 then PInf else NInf)"
| "float_mul_int NaN k = NaN"

text \<open>\<^verbatim>\<open>total_loss += ...\<close>: addition of floats.\<close>

fun float_add :: "fval \<Rightarrow> fval \<Rightarrow> fval" where
  "float_add NaN y = NaN"
| "float_add x NaN = NaN"
| "float_add PInf NInf = NaN"
| "float_add NInf PInf = NaN"
| "float_add PInf y = PInf"
| "float_add x PInf = PInf"
| "float_add NInf y = NInf"
| "float_add x NInf = NInf"
| "float_add (Fin x) (Fin y) = Fin (x + y)"

text \<open>
  \<^verbatim>\<open>total_loss / len(loader)\<close>: Python's true division raises \<^verbatim>\<open>ZeroDivisionError\<close>
  for an empty loader.
\<close>

fun float_div_len :: "fval \<Rightarrow> nat \<Rightarrow> py_error + fval" where
  "float_div_len x 0 = Inl ZeroDivisionError"
| "float_div_len (Fin x) (Suc n) = Inr (Fin (x / real (Suc n)))"
| "float_div_len v (Suc n) = Inr v"

section \<open>The training loop\<close>

text \<open>
  The scorer, the optimizer, the scheduler and the gradient scaler are external objects.
  The trainer's effect on them is the sequence of calls it makes, recorded in order, and
  the contents of the gradient buffers (\<^verbatim>\<open>.grad\<close>): \<^verbatim>\<open>loss.backward()\<close> adds the
  gradient of its loss to the buffers, \<^verbatim>\<open>optimizer.zero_grad()\<close> clears them, and a
  step of the optimizer reads what they hold. A buffer is the list of contributions it
  holds, each the micro-batch index and the loss value that was back-propagated. The value
  that the forward pass and the loss function return for each micro-batch is an input of
  the model.
\<close>

type_synonym grad_buffer = "(nat \<times> fval) list"

datatype call =
    ZeroGrad
  | Backward nat fval
  | ClipGradNorm
  | OptimizerStep grad_buffer
  | SchedulerStep
  | ScalerUnscale
  | ScalerStep grad_buffer
  | ScalerUpdate

record train_state =
  grad :: grad_buffer
  calls :: "call list"

text \<open>\<^verbatim>\<open>optimizer.zero_grad()\<close>.\<close>

definition zero_grad :: "train_state \<Rightarrow> train_state" where
  "zero_grad s = s\<lparr>calls := calls s @ [ZeroGrad], grad := []\<rparr>"

text \<open>
  \<^verbatim>\<open>loss.backward()\<close>, and \<^verbatim>\<open>scaler.scale(loss).backward()\<close> of the mixed-precision
  trainer (the scale factor is internal to the scaler, which divides it out again in
  \<^verbatim>\<open>unscale_\<close>).
\<close>

definition backward :: "nat \<Rightarrow> fval \<Rightarrow> train_state \<Rightarrow> train_state" where
  "backward i loss s = s\<lparr>calls := calls s @ [Backward i loss], grad := grad s @ [(i, loss)]\<rparr>"

text \<open>
  The body of \<^verbatim>\<open>if (i + 1) % accumulation_steps == 0:\<close> in \<^verbatim>\<open>production_train.py\<close>
  (lines 459-462): clip, optimizer step, scheduler step, zero the gradients.
\<close>

definition optimizer_block :: "train_state \<Rightarrow> train_state" where
  "optimizer_block s =
     zero_grad (s\<lparr>calls := calls s @ [ClipGradNorm, OptimizerStep (grad s), SchedulerStep]\<rparr>)"

text \<open>
  The same block in \<^verbatim>\<open>train_colab_fixed.py\<close> (lines 153-158): unscale, clip,
  \<^verbatim>\<open>scaler.step(optimizer)\<close>, \<^verbatim>\<open>scaler.update()\<close>, scheduler step, zero the gradients.
\<close>

definition amp_optimizer_block :: "train_state \<Rightarrow> train_state" where
  "amp_optimizer_block s =
     zero_grad (s\<lparr>calls := calls s @
        [ScalerUnscale, ClipGradNorm, ScalerStep (grad s), ScalerUpdate, SchedulerStep]\<rparr>)"

text \<open>
  The \<^verbatim>\<open>for i, batch in enumerate(loader)\<close> loop, which the two trainers share but for
  the block above. With \<^verbatim>\<open>accumulation_steps = 0\<close> the division of the loss does not
  raise, the \<^verbatim>\<open>%\<close> after the backward pass does.
\<close>

fun accumulate_batches ::
  "(train_state \<Rightarrow> train_state) \<Rightarrow> int \<Rightarrow> (nat \<times> fval) list \<Rightarrow> train_state \<times> fval
     \<Rightarrow> py_error + train_state \<times> fval" where
  "accumulate_batches block K [] (s, total_loss) = Inr (s, total_loss)"
| "accumulate_batches block K ((i, raw) # rest) (s, total_loss) =
     (let loss = tensor_div_int raw K;
          s1 = backward i loss s
      in if K = 0 then Inl ZeroDivisionError
         else
           (let s2 = (if (int i + 1) mod K = 0 then block s1 else s1)
            in accumulate_batches block K rest (s2, float_add total_loss (float_mul_int loss K))))"

text \<open>
  \<^verbatim>\<open>train_epoch\<close> of \<^verbatim>\<open>production_train.py\<close> (lines 439-466). \<open>losses\<close> holds, for each
  micro-batch of the loader in order, the value of \<^verbatim>\<open>nn.BCEWithLogitsLoss()(logits, labels)\<close>.
\<close>

definition train_epoch :: "int \<Rightarrow> fval list \<Rightarrow> train_state \<Rightarrow> py_error + train_state \<times> fval" where
  "train_epoch accumulation_steps losses s =
     (case accumulate_batches optimizer_block accumulation_steps (enumerate 0 losses)
             (zero_grad s, Fin 0) of
        Inl e \<Rightarrow> Inl e
      | Inr (s', total_loss) \<Rightarrow>
          (case float_div_len total_loss (length losses) of
             Inl e \<Rightarrow> Inl e
           | Inr avg \<Rightarrow> Inr (s', avg)))"

text \<open>\<^verbatim>\<open>train_epoch\<close> of \<^verbatim>\<open>train_colab_fixed.py\<close> (lines 135-163).\<close>

definition train_epoch_amp :: "int \<Rightarrow> fval list \<Rightarrow> train_state \<Rightarrow> py_error + train_state \<times> fval" where
  "train_epoch_amp accumulation_steps losses s =
     (case accumulate_batches amp_optimizer_block accumulation_steps (enumerate 0 losses)
             (zero_grad s, Fin 0) of
        Inl e \<Rightarrow> Inl e
      | Inr (s', total_loss) \<Rightarrow>
          (case float_div_len total_loss (length losses) of
             Inl e \<Rightarrow> Inl e
           | Inr avg \<Rightarrow> Inr (s', avg)))"


section \<open>Gradient accumulation: what an epoch is expected to do\<close>

text \<open>
  The next definitions are not taken from the code. They write down the schedule that
  the accumulation claims describe, to compare the trainers with: after a leading
  \<^verbatim>\<open>zero_grad\<close>, micro-batch \<open>i\<close> is back-propagated with its loss divided by \<open>K\<close>, and
  when \<open>(i + 1) mod K = 0\<close> the step calls follow, the optimizer reading the
  contributions of the \<open>K\<close> micro-batches \<open>i + 1 - K, ..., i\<close>.
\<close>

definition optimizer_step_calls :: "grad_buffer \<Rightarrow> call list" where
  "optimizer_step_calls g = [ClipGradNorm, OptimizerStep g, SchedulerStep, ZeroGrad]"

definition amp_step_calls :: "grad_buffer \<Rightarrow> call list" where
  "amp_step_calls g = [ScalerUnscale, ClipGradNorm, ScalerStep g, ScalerUpdate, SchedulerStep, ZeroGrad]"

definition window :: "int \<Rightarrow> fval list \<Rightarrow> nat \<Rightarrow> grad_buffer" where
  "window K ls i = map (\<lambda>j. (j, tensor_div_int (ls ! j) K)) [Suc i - nat K..<Suc i]"

definition micro_batch_calls :: "(grad_buffer \<Rightarrow> call list) \<Rightarrow> int \<Rightarrow> fval list \<Rightarrow> nat \<Rightarrow> call list" where
  "micro_batch_calls step_calls K ls i =
     Backward i (tensor_div_int (ls ! i) K)
       # (if (int i + 1) mod K = 0 then step_calls (window K ls i) else [])"

definition expected_calls :: "(grad_buffer \<Rightarrow> call list) \<Rightarrow> int \<Rightarrow> fval list \<Rightarrow> call list" where
  "expected_calls step_calls K ls =
     ZeroGrad # concat (map (micro_batch_calls step_calls K ls) [0..<length ls])"

definition pending :: "int \<Rightarrow> fval list \<Rightarrow> grad_buffer" where
  "pending K ls =
     map (\<lambda>j. (j, tensor_div_int (ls ! j) K)) [length ls - length ls mod nat K..<length ls]"

definition loss_total :: "int \<Rightarrow> fval list \<Rightarrow> fval" where
  "loss_total K ls = foldl float_add (Fin 0) (map (\<lambda>l. float_mul_int (tensor_div_int l K) K) ls)"

definition initial_state :: train_state where "initial_state = \<lparr>grad = [], calls = []\<rparr>"

section \<open>The trainers follow the schedule\<close>

lemma accumulate_batches_append:
  "accumulate_batches block K (xs @ ys) st =
     (case accumulate_batches block K xs st of
        Inl e \<Rightarrow> Inl e
      | Inr st' \<Rightarrow> accumulate_batches block K ys st')"
proof (induction xs arbitrary: st)
  case Nil
  show ?case by (cases st) simp
next
  case (Cons x xs)
  obtain i raw where x: "x = (i, raw)" by (cases x)
  obtain s t where st: "st = (s, t)" by (cases st)
  show ?case unfolding x st by (simp add: Let_def Cons.IH)
qed

lemma mod_Suc_zero_window:
  assumes "0 < k" and "Suc n mod k = 0"
  shows "n - n mod k = Suc n - k"
proof -
  from assms have "Suc (n mod k) = k" by (metis mod_Suc mod_less_divisor nat.discI)
  then have "n mod k = k - 1" by simp
  moreover have "k \<le> Suc n" using assms by (metis Suc_le_eq mod_less nat.discI not_less)
  ultimately show ?thesis using assms by simp
qed

lemma mod_Suc_nonzero_pending:
  assumes "0 < k" and "Suc n mod k \<noteq> 0"
  shows "Suc n - Suc n mod k = n - n mod k"
proof -
  from assms have "Suc n mod k = Suc (n mod k)" by (simp add: mod_Suc split: if_splits)
  moreover have "n mod k \<le> n" by simp
  ultimately show ?thesis by simp
qed

lemma step_condition_nat:
  assumes "1 \<le> K"
  shows "((int n + 1) mod K = 0) = (Suc n mod nat K = 0)"
proof -
  have "int (Suc n mod nat K) = int (Suc n) mod int (nat K)" by (simp add: zmod_int)
  also have "\<dots> = (int n + 1) mod K" using assms by (simp add: add.commute)
  finally show ?thesis by (metis of_nat_eq_0_iff)
qed

lemma window_snoc_old: "i < length ls \<Longrightarrow> window K (ls @ [l]) i = window K ls i"
  by (simp add: window_def nth_append)

lemma micro_batch_calls_snoc_old:
  "i < length ls \<Longrightarrow> micro_batch_calls sc K (ls @ [l]) i = micro_batch_calls sc K ls i"
  by (simp add: micro_batch_calls_def window_snoc_old nth_append)

lemma buffer_snoc:
  assumes "a \<le> length ls"
  shows "map (\<lambda>j. (j, tensor_div_int ((ls @ [l]) ! j) K)) [a..<Suc (length ls)]
         = map (\<lambda>j. (j, tensor_div_int (ls ! j) K)) [a..<length ls] @ [(length ls, tensor_div_int l K)]"
  using assms by (simp add: nth_append)

lemma accumulate_batches_closed_form:
  assumes K: "1 \<le> K"
    and blk: "\<And>s. block s = \<lparr>grad = [], calls = calls s @ sc (grad s)\<rparr>"
  shows "accumulate_batches block K (enumerate 0 ls) (\<lparr>grad = [], calls = cs\<rparr>, Fin 0) =
     Inr (\<lparr>grad = pending K ls,
           calls = cs @ concat (map (micro_batch_calls sc K ls) [0..<length ls])\<rparr>,
          loss_total K ls)"
proof (induction ls rule: rev_induct)
  case Nil
  show ?case by (simp add: pending_def loss_total_def)
next
  case (snoc l ls)
  let ?n = "length ls"
  let ?k = "nat K"
  have k: "0 < ?k" using K by simp
  have K0: "K \<noteq> 0" using K by simp
  have en: "enumerate 0 (ls @ [l]) = enumerate 0 ls @ [(?n, l)]"
    by (simp add: enumerate_append_eq)
  have old: "map (micro_batch_calls sc K (ls @ [l])) [0..<?n] = map (micro_batch_calls sc K ls) [0..<?n]"
    by (simp add: micro_batch_calls_snoc_old)
  have tot: "loss_total K (ls @ [l]) = float_add (loss_total K ls) (float_mul_int (tensor_div_int l K) K)"
    by (simp add: loss_total_def)
  have le: "?n - ?n mod ?k \<le> ?n" by simp
  have new: "micro_batch_calls sc K (ls @ [l]) ?n =
      Backward ?n (tensor_div_int l K)
        # (if (int ?n + 1) mod K = 0 then sc (window K (ls @ [l]) ?n) else [])"
    by (simp add: micro_batch_calls_def)
  have buf: "pending K ls @ [(?n, tensor_div_int l K)]
      = map (\<lambda>j. (j, tensor_div_int ((ls @ [l]) ! j) K)) [?n - ?n mod ?k..<Suc ?n]"
    unfolding pending_def using buffer_snoc [OF le] by simp
  show ?case
  proof (cases "Suc ?n mod ?k = 0")
    case True
    then have c: "(int ?n + 1) mod K = 0" using step_condition_nat [OF K] by simp
    have w: "pending K ls @ [(?n, tensor_div_int l K)] = window K (ls @ [l]) ?n"
      unfolding buf window_def using mod_Suc_zero_window [OF k True] by simp
    have p: "pending K (ls @ [l]) = []" using True by (simp add: pending_def)
    show ?thesis
      unfolding en accumulate_batches_append snoc.IH
      using c K0 w p
      by (simp add: Let_def backward_def blk old new tot)
  next
    case False
    then have c: "(int ?n + 1) mod K \<noteq> 0" using step_condition_nat [OF K] by simp
    have p: "pending K (ls @ [l]) = pending K ls @ [(?n, tensor_div_int l K)]"
      unfolding buf using mod_Suc_nonzero_pending [OF k False] by (simp add: pending_def)
    show ?thesis
      unfolding en accumulate_batches_append snoc.IH
      using c K0 p
      by (simp add: Let_def backward_def old new tot)
  qed
qed


lemma optimizer_block_eq:
  "optimizer_block s = \<lparr>grad = [], calls = calls s @ optimizer_step_calls (grad s)\<rparr>"
  by (simp add: optimizer_block_def zero_grad_def optimizer_step_calls_def)

lemma amp_optimizer_block_eq:
  "amp_optimizer_block s = \<lparr>grad = [], calls = calls s @ amp_step_calls (grad s)\<rparr>"
  by (simp add: amp_optimizer_block_def zero_grad_def amp_step_calls_def)

lemma zero_grad_eq: "zero_grad s = \<lparr>grad = [], calls = calls s @ [ZeroGrad]\<rparr>"
  by (simp add: zero_grad_def)

lemma float_div_len_total: "0 < n \<Longrightarrow> \<exists>avg. float_div_len t n = Inr avg"
  by (cases n; cases t) simp_all

lemma train_epoch_closed_form:
  assumes "1 \<le> K" and "ls \<noteq> []"
  shows "\<exists>avg. float_div_len (loss_total K ls) (length ls) = Inr avg
           \<and> train_epoch K ls s =
               Inr (\<lparr>grad = pending K ls, calls = calls s @ expected_calls optimizer_step_calls K ls\<rparr>, avg)"
proof -
  from assms(2) have "0 < length ls" by simp
  from float_div_len_total [OF this]
  obtain avg where avg: "float_div_len (loss_total K ls) (length ls) = Inr avg" by blast
  have "train_epoch K ls s =
      Inr (\<lparr>grad = pending K ls, calls = calls s @ expected_calls optimizer_step_calls K ls\<rparr>, avg)"
    unfolding train_epoch_def zero_grad_eq
      accumulate_batches_closed_form [OF assms(1) optimizer_block_eq]
    using avg by (simp add: expected_calls_def)
  with avg show ?thesis by blast
qed

lemma train_epoch_amp_closed_form:
  assumes "1 \<le> K" and "ls \<noteq> []"
  shows "\<exists>avg. float_div_len (loss_total K ls) (length ls) = Inr avg
           \<and> train_epoch_amp K ls s =
               Inr (\<lparr>grad = pending K ls, calls = calls s @ expected_calls amp_step_calls K ls\<rparr>, avg)"
proof -
  from assms(2) have "0 < length ls" by simp
  from float_div_len_total [OF this]
  obtain avg where avg: "float_div_len (loss_total K ls) (length ls) = Inr avg" by blast
  have "train_epoch_amp K ls s =
      Inr (\<lparr>grad = pending K ls, calls = calls s @ expected_calls amp_step_calls K ls\<rparr>, avg)"
    unfolding train_epoch_amp_def zero_grad_eq
      accumulate_batches_closed_form [OF assms(1) amp_optimizer_block_eq]
    using avg by (simp add: expected_calls_def)
  with avg show ?thesis by blast
qed




section \<open>An incomplete final group of micro-batches\<close>

text \<open>Whether a loss value is a finite number (\<^verbatim>\<open>math.isfinite\<close>); used to state properties only.\<close>

fun is_finite :: "fval \<Rightarrow> bool" where
  "is_finite (Fin x) = True"
| "is_finite v = False"

lemma tail_has_no_step:
  assumes "0 < k" and "n - n mod k \<le> i" and "i < n"
  shows "Suc i mod k \<noteq> 0"
proof -
  define d where "d = Suc i - (n - n mod k)"
  have m: "n - n mod k = k * (n div k)" by (simp add: minus_mod_eq_mult_div)
  have "n mod k \<le> n" by simp
  with assms(2,3) have d: "0 < d" "d \<le> n mod k" unfolding d_def by linarith+
  have "n mod k < k" using assms(1) by simp
  with d have dk: "d < k" by simp
  have "Suc i = k * (n div k) + d" using assms(2) unfolding d_def m [symmetric] by simp
  then have "Suc i mod k = d mod k" by simp
  with dk d show ?thesis by simp
qed

lemma concat_map_singleton_list: "concat (map (\<lambda>x. [f x]) xs) = map f xs"
  by (induction xs) simp_all

lemma window_take:
  assumes "i < m"
  shows "window K (take m ls) i = window K ls i"
  using assms by (auto simp: window_def)

lemma micro_batch_calls_take:
  assumes "i < m"
  shows "micro_batch_calls sc K (take m ls) i = micro_batch_calls sc K ls i"
  using assms by (simp add: micro_batch_calls_def window_take)

lemma expected_calls_split:
  assumes K: "1 \<le> K"
  shows "expected_calls sc K ls =
           expected_calls sc K (take (length ls - length ls mod nat K) ls)
           @ map (\<lambda>i. Backward i (tensor_div_int (ls ! i) K))
               [length ls - length ls mod nat K..<length ls]"
proof -
  let ?n = "length ls"
  let ?m = "?n - ?n mod nat K"
  have k: "0 < nat K" using K by simp
  have le: "?m \<le> ?n" by simp
  have "[0..<?n] = [0..<?m] @ [?m..<?n]"
    using upt_add_eq_append [of 0 ?m "?n - ?m"] le by simp
  then have split: "concat (map (micro_batch_calls sc K ls) [0..<?n])
      = concat (map (micro_batch_calls sc K ls) [0..<?m])
        @ concat (map (micro_batch_calls sc K ls) [?m..<?n])"
    by simp
  have head: "map (micro_batch_calls sc K ls) [0..<?m]
      = map (micro_batch_calls sc K (take ?m ls)) [0..<?m]"
    by (simp add: micro_batch_calls_take)
  have "\<And>i. i \<in> set [?m..<?n] \<Longrightarrow>
      micro_batch_calls sc K ls i = [Backward i (tensor_div_int (ls ! i) K)]"
  proof -
    fix i assume "i \<in> set [?m..<?n]"
    then have "?m \<le> i" "i < ?n" by simp_all
    from tail_has_no_step [OF k this] have "(int i + 1) mod K \<noteq> 0"
      using step_condition_nat [OF K] by simp
    then show "micro_batch_calls sc K ls i = [Backward i (tensor_div_int (ls ! i) K)]"
      by (simp add: micro_batch_calls_def)
  qed
  then have "map (micro_batch_calls sc K ls) [?m..<?n]
      = map (\<lambda>i. [Backward i (tensor_div_int (ls ! i) K)]) [?m..<?n]"
    by (simp only: map_eq_conv) blast
  then have tail: "concat (map (micro_batch_calls sc K ls) [?m..<?n])
      = map (\<lambda>i. Backward i (tensor_div_int (ls ! i) K)) [?m..<?n]"
    by (simp only: concat_map_singleton_list)
  have len: "length (take ?m ls) = ?m" by simp
  show ?thesis
    unfolding expected_calls_def split head tail len by simp
qed

lemma train_epoch_ignores_old_grad:
  "train_epoch K ls (s\<lparr>grad := []\<rparr>) = train_epoch K ls s"
  by (simp add: train_epoch_def zero_grad_def)

lemma train_epoch_amp_ignores_old_grad:
  "train_epoch_amp K ls (s\<lparr>grad := []\<rparr>) = train_epoch_amp K ls s"
  by (simp add: train_epoch_amp_def zero_grad_def)

text \<open>
  C10. Let \<open>K \<ge> 1\<close> and let the number \<open>n\<close> of micro-batches leave a remainder
  \<open>r = n mod K\<close> other than zero. Then in both trainers the first \<open>n - r\<close> micro-batches
  run the schedule, and the last \<open>r\<close> contribute backward passes only: no clipping, no
  optimizer step, no scheduler step and no zeroing follows them. When the epoch returns,
  the gradient buffers hold exactly the contributions of those \<open>r\<close> micro-batches. The
  next epoch, whatever its losses \<open>ls2\<close>, runs as it would from empty buffers, because it
  starts by zeroing the gradients: the contributions reach no optimizer step. The
  reported loss is the sum over all \<open>n\<close> micro-batches (the last \<open>r\<close> included) of the
  scaled loss times \<open>K\<close>, divided by \<open>n\<close>.
\<close>

theorem incomplete_group_gets_no_optimizer_step:
  assumes "1 \<le> K" and "length ls mod nat K \<noteq> 0"
  shows "(\<exists>s' avg. train_epoch K ls s = Inr (s', avg)
           \<and> calls s' = calls s
                @ expected_calls optimizer_step_calls K (take (length ls - length ls mod nat K) ls)
                @ map (\<lambda>i. Backward i (tensor_div_int (ls ! i) K))
                    [length ls - length ls mod nat K..<length ls]
           \<and> grad s' = map (\<lambda>i. (i, tensor_div_int (ls ! i) K))
                          [length ls - length ls mod nat K..<length ls]
           \<and> train_epoch K ls2 s' = train_epoch K ls2 (s'\<lparr>grad := []\<rparr>)
           \<and> float_div_len
                (foldl float_add (Fin 0) (map (\<lambda>l. float_mul_int (tensor_div_int l K) K) ls))
                (length ls) = Inr avg)
       \<and> (\<exists>s' avg. train_epoch_amp K ls s = Inr (s', avg)
           \<and> calls s' = calls s
                @ expected_calls amp_step_calls K (take (length ls - length ls mod nat K) ls)
                @ map (\<lambda>i. Backward i (tensor_div_int (ls ! i) K))
                    [length ls - length ls mod nat K..<length ls]
           \<and> grad s' = map (\<lambda>i. (i, tensor_div_int (ls ! i) K))
                          [length ls - length ls mod nat K..<length ls]
           \<and> train_epoch_amp K ls2 s' = train_epoch_amp K ls2 (s'\<lparr>grad := []\<rparr>)
           \<and> float_div_len
                (foldl float_add (Fin 0) (map (\<lambda>l. float_mul_int (tensor_div_int l K) K) ls))
                (length ls) = Inr avg)"
proof -
  from assms(2) have ne: "ls \<noteq> []" by auto
  from train_epoch_closed_form [OF assms(1) ne, of s]
  obtain avg where avg: "float_div_len (loss_total K ls) (length ls) = Inr avg"
    and run: "train_epoch K ls s =
       Inr (\<lparr>grad = pending K ls, calls = calls s @ expected_calls optimizer_step_calls K ls\<rparr>, avg)"
    by blast
  from train_epoch_amp_closed_form [OF assms(1) ne, of s]
  obtain avg' where avg': "float_div_len (loss_total K ls) (length ls) = Inr avg'"
    and run': "train_epoch_amp K ls s =
       Inr (\<lparr>grad = pending K ls, calls = calls s @ expected_calls amp_step_calls K ls\<rparr>, avg')"
    by blast
  have a: "\<exists>s' avg. train_epoch K ls s = Inr (s', avg)
           \<and> calls s' = calls s
                @ expected_calls optimizer_step_calls K (take (length ls - length ls mod nat K) ls)
                @ map (\<lambda>i. Backward i (tensor_div_int (ls ! i) K))
                    [length ls - length ls mod nat K..<length ls]
           \<and> grad s' = map (\<lambda>i. (i, tensor_div_int (ls ! i) K))
                          [length ls - length ls mod nat K..<length ls]
           \<and> train_epoch K ls2 s' = train_epoch K ls2 (s'\<lparr>grad := []\<rparr>)
           \<and> float_div_len
                (foldl float_add (Fin 0) (map (\<lambda>l. float_mul_int (tensor_div_int l K) K) ls))
                (length ls) = Inr avg"
    using run avg expected_calls_split [OF assms(1), of optimizer_step_calls ls]
    by (simp add: pending_def loss_total_def train_epoch_ignores_old_grad)
  have b: "\<exists>s' avg. train_epoch_amp K ls s = Inr (s', avg)
           \<and> calls s' = calls s
                @ expected_calls amp_step_calls K (take (length ls - length ls mod nat K) ls)
                @ map (\<lambda>i. Backward i (tensor_div_int (ls ! i) K))
                    [length ls - length ls mod nat K..<length ls]
           \<and> grad s' = map (\<lambda>i. (i, tensor_div_int (ls ! i) K))
                          [length ls - length ls mod nat K..<length ls]
           \<and> train_epoch_amp K ls2 s' = train_epoch_amp K ls2 (s'\<lparr>grad := []\<rparr>)
           \<and> float_div_len
                (foldl float_add (Fin 0) (map (\<lambda>l. float_mul_int (tensor_div_int l K) K) ls))
                (length ls) = Inr avg"
    using run' avg' expected_calls_split [OF assms(1), of amp_step_calls ls]
    by (simp add: pending_def loss_total_def train_epoch_amp_ignores_old_grad)
  from a b show ?thesis by blast
qed

theorem incomplete_group_gets_no_optimizer_step_witness:
  "(1::int) \<le> 2 \<and> length [Fin 1, Fin 2, Fin 3] mod nat 2 \<noteq> 0
   \<and> (\<exists>s' avg. train_epoch 2 [Fin 1, Fin 2, Fin 3] initial_state = Inr (s', avg)
         \<and> grad s' = [(2, Fin (3 / 2))]
         \<and> train_epoch 2 [Fin 4] s' = train_epoch 2 [Fin 4] (s'\<lparr>grad := []\<rparr>)
         \<and> avg = Fin 2)"
proof -
  have h1: "(1::int) \<le> 2" by simp
  have h2: "length [Fin 1, Fin 2, Fin 3] mod nat 2 \<noteq> 0" by simp
  have u: "[length [Fin 1, Fin 2, Fin 3] - length [Fin 1, Fin 2, Fin 3] mod nat 2
              ..<length [Fin 1, Fin 2, Fin 3]] = [2]"
    by (simp add: upt_rec)
  from incomplete_group_gets_no_optimizer_step [OF h1 h2, of initial_state "[Fin 4]"]
  obtain s' avg where r: "train_epoch 2 [Fin 1, Fin 2, Fin 3] initial_state = Inr (s', avg)"
    "grad s' = map (\<lambda>i. (i, tensor_div_int ([Fin 1, Fin 2, Fin 3] ! i) 2))
        [length [Fin 1, Fin 2, Fin 3] - length [Fin 1, Fin 2, Fin 3] mod nat 2
              ..<length [Fin 1, Fin 2, Fin 3]]"
    "train_epoch 2 [Fin 4] s' = train_epoch 2 [Fin 4] (s'\<lparr>grad := []\<rparr>)"
    "float_div_len
       (foldl float_add (Fin 0)
          (map (\<lambda>l. float_mul_int (tensor_div_int l 2) 2) [Fin 1, Fin 2, Fin 3]))
       (length [Fin 1, Fin 2, Fin 3]) = Inr avg"
    by blast
  from r(2) have g: "grad s' = [(2, Fin (3 / 2))]" unfolding u by simp
  from r(4) have a: "avg = Fin 2" by (simp add: numeral_3_eq_3)
  from r(1,3) g a h1 h2 show ?thesis by blast
qed

section \<open>Non-finite losses\<close>

lemma not_finite_tensor_div: "\<not> is_finite l \<Longrightarrow> \<not> is_finite (tensor_div_int l K)"
  by (cases l) simp_all

lemma not_finite_float_mul: "K \<noteq> 0 \<Longrightarrow> \<not> is_finite x \<Longrightarrow> \<not> is_finite (float_mul_int x K)"
  by (cases x) simp_all

lemma not_finite_float_add: "\<not> is_finite a \<or> \<not> is_finite b \<Longrightarrow> \<not> is_finite (float_add a b)"
  by (cases a; cases b) simp_all

lemma not_finite_foldl_acc: "\<not> is_finite acc \<Longrightarrow> \<not> is_finite (foldl float_add acc xs)"
  by (induction xs arbitrary: acc) (simp_all add: not_finite_float_add)

lemma not_finite_foldl_elem:
  "x \<in> set xs \<Longrightarrow> \<not> is_finite x \<Longrightarrow> \<not> is_finite (foldl float_add acc xs)"
proof (induction xs arbitrary: acc)
  case Nil
  then show ?case by simp
next
  case (Cons y ys)
  show ?case
  proof (cases "x = y")
    case True
    with Cons.prems have "\<not> is_finite (float_add acc y)" by (simp add: not_finite_float_add)
    then show ?thesis by (simp add: not_finite_foldl_acc)
  next
    case False
    with Cons.prems have "x \<in> set ys" by simp
    from Cons.IH [OF this Cons.prems(2)] show ?thesis by simp
  qed
qed

lemma not_finite_loss_total:
  assumes "1 \<le> K" and "i < length ls" and "\<not> is_finite (ls ! i)"
  shows "\<not> is_finite (loss_total K ls)"
proof -
  have "\<not> is_finite (float_mul_int (tensor_div_int (ls ! i) K) K)"
    using assms(1,3) by (simp add: not_finite_float_mul not_finite_tensor_div)
  moreover have "float_mul_int (tensor_div_int (ls ! i) K) K
      \<in> set (map (\<lambda>l. float_mul_int (tensor_div_int l K) K) ls)"
    using assms(2) by simp
  ultimately show ?thesis unfolding loss_total_def by (rule not_finite_foldl_elem [rotated])
qed

lemma not_finite_float_div_len:
  "float_div_len t n = Inr avg \<Longrightarrow> \<not> is_finite t \<Longrightarrow> \<not> is_finite avg"
  by (cases n; cases t) auto

lemma backward_in_expected_calls:
  assumes "j < length ls"
  shows "Backward j (tensor_div_int (ls ! j) K) \<in> set (expected_calls sc K ls)"
proof -
  have "Backward j (tensor_div_int (ls ! j) K) \<in> set (micro_batch_calls sc K ls j)"
    by (simp add: micro_batch_calls_def)
  moreover have "j \<in> set [0..<length ls]" using assms by simp
  ultimately show ?thesis unfolding expected_calls_def by (auto simp del: upt_Suc)
qed

text \<open>
  C7 (as the code has it). Neither trainer tests a loss for finiteness. For \<open>K \<ge> 1\<close>,
  when micro-batch \<open>i\<close> has a non-finite loss and is not the last one, the epoch still
  returns normally: the non-finite loss is back-propagated like any other, the next
  micro-batch is processed after it, and the average loss that the epoch reports is
  itself non-finite.
\<close>

theorem non_finite_loss_is_not_checked:
  assumes "1 \<le> K" and "Suc i < length ls" and "\<not> is_finite (ls ! i)"
  shows "(\<exists>s' avg. train_epoch K ls s = Inr (s', avg)
           \<and> Backward i (tensor_div_int (ls ! i) K) \<in> set (calls s')
           \<and> Backward (Suc i) (tensor_div_int (ls ! Suc i) K) \<in> set (calls s')
           \<and> \<not> is_finite avg)
       \<and> (\<exists>s' avg. train_epoch_amp K ls s = Inr (s', avg)
           \<and> Backward i (tensor_div_int (ls ! i) K) \<in> set (calls s')
           \<and> Backward (Suc i) (tensor_div_int (ls ! Suc i) K) \<in> set (calls s')
           \<and> \<not> is_finite avg)"
proof -
  from assms(2) have ne: "ls \<noteq> []" and i: "i < length ls" by auto
  have nf: "\<not> is_finite (loss_total K ls)" using assms(1) i assms(3) by (rule not_finite_loss_total)
  from train_epoch_closed_form [OF assms(1) ne, of s]
  obtain avg where avg: "float_div_len (loss_total K ls) (length ls) = Inr avg"
    and run: "train_epoch K ls s =
       Inr (\<lparr>grad = pending K ls, calls = calls s @ expected_calls optimizer_step_calls K ls\<rparr>, avg)"
    by blast
  from train_epoch_amp_closed_form [OF assms(1) ne, of s]
  obtain avg' where avg': "float_div_len (loss_total K ls) (length ls) = Inr avg'"
    and run': "train_epoch_amp K ls s =
       Inr (\<lparr>grad = pending K ls, calls = calls s @ expected_calls amp_step_calls K ls\<rparr>, avg')"
    by blast
  have a: "\<exists>s' avg. train_epoch K ls s = Inr (s', avg)
           \<and> Backward i (tensor_div_int (ls ! i) K) \<in> set (calls s')
           \<and> Backward (Suc i) (tensor_div_int (ls ! Suc i) K) \<in> set (calls s')
           \<and> \<not> is_finite avg"
    using run not_finite_float_div_len [OF avg nf]
      backward_in_expected_calls [OF i] backward_in_expected_calls [OF assms(2)]
    by simp
  have b: "\<exists>s' avg. train_epoch_amp K ls s = Inr (s', avg)
           \<and> Backward i (tensor_div_int (ls ! i) K) \<in> set (calls s')
           \<and> Backward (Suc i) (tensor_div_int (ls ! Suc i) K) \<in> set (calls s')
           \<and> \<not> is_finite avg"
    using run' not_finite_float_div_len [OF avg' nf]
      backward_in_expected_calls [OF i] backward_in_expected_calls [OF assms(2)]
    by simp
  from a b show ?thesis by blast
qed

theorem non_finite_loss_is_not_checked_witness:
  "(1::int) \<le> 1 \<and> Suc 0 < length [NaN, Fin 1] \<and> \<not> is_finite ([NaN, Fin 1] ! 0)
   \<and> (\<exists>s' avg. train_epoch 1 [NaN, Fin 1] initial_state = Inr (s', avg)
         \<and> Backward (Suc 0) (Fin 1) \<in> set (calls s') \<and> \<not> is_finite avg)"
proof -
  have h1: "(1::int) \<le> 1" by simp
  have h2: "Suc 0 < length [NaN, Fin 1]" by simp
  have h3: "\<not> is_finite ([NaN, Fin 1] ! 0)" by simp
  from non_finite_loss_is_not_checked [OF h1 h2 h3, of initial_state]
  have "\<exists>s' avg. train_epoch 1 [NaN, Fin 1] initial_state = Inr (s', avg)
         \<and> Backward (Suc 0) (Fin 1) \<in> set (calls s') \<and> \<not> is_finite avg"
    by simp blast
  with h1 h2 h3 show ?thesis by blast
qed

text \<open>
  C7 (as stated) fails: with \<open>K = 1\<close> and the losses NaN and 1, \<^verbatim>\<open>train_epoch\<close> of
  \<^verbatim>\<open>production_train.py\<close> (which uses no mixed precision, so the NaN is not a scale
  overflow) raises nothing. It steps the optimizer on the NaN gradient, goes on to the
  second micro-batch, steps again, and returns NaN as the epoch's loss.
\<close>

theorem nan_loss_continues_counterexample:
  "train_epoch 1 [NaN, Fin 1] initial_state =
     Inr (\<lparr>grad = [],
           calls = [ZeroGrad,
                    Backward 0 NaN, ClipGradNorm, OptimizerStep [(0, NaN)], SchedulerStep, ZeroGrad,
                    Backward 1 (Fin 1), ClipGradNorm, OptimizerStep [(1, Fin 1)], SchedulerStep,
                    ZeroGrad]\<rparr>,
          NaN)"
  by (simp add: train_epoch_def initial_state_def zero_grad_def backward_def optimizer_block_def Let_def)



section \<open>Evaluation\<close>

text \<open>\<^verbatim>\<open>torch.sigmoid\<close>, in exact arithmetic.\<close>

definition sigmoid :: "real \<Rightarrow> real" where
  "sigmoid x = 1 / (1 + exp (- x))"

text \<open>
  One entry of \<^verbatim>\<open>(torch.sigmoid(logits) > 0.5).float()\<close> (\<^verbatim>\<open>production_train.py\<close>
  line 487, \<^verbatim>\<open>train_colab_1m.py\<close> line 142).
\<close>

definition predict_present :: "real \<Rightarrow> real" where
  "predict_present logit = (if sigmoid logit > 0.5 then 1 else 0)"

text \<open>
  A batch of the validation loader as the evaluator sees it: the logits the scorer
  returns, the label matrix, and the value of the loss function on the two.
\<close>

record eval_batch =
  batch_logits :: "real list list"
  batch_labels :: "real list list"
  batch_loss :: fval

text \<open>\<^verbatim>\<open>all_preds\<close> and \<^verbatim>\<open>all_labels\<close> after the loop: one row per example.\<close>

definition collect_preds :: "eval_batch list \<Rightarrow> real list list" where
  "collect_preds loader = concat (map (\<lambda>b. map (map predict_present) (batch_logits b)) loader)"

definition collect_labels :: "eval_batch list \<Rightarrow> real list list" where
  "collect_labels loader = concat (map batch_labels loader)"

text \<open>
  \<^verbatim>\<open>(all_preds == all_labels).all(axis=1).mean()\<close> on two matrices of the same shape: the
  share of rows that agree in every column. With no row at all the array is
  one-dimensional and \<^verbatim>\<open>axis=1\<close> is rejected.
\<close>

definition exact_match_rate :: "'a list list \<Rightarrow> 'a list list \<Rightarrow> py_error + real" where
  "exact_match_rate all_preds all_labels =
     (if all_preds = [] then Inl AxisError
      else Inr (real (length (filter (\<lambda>(p, l). p = l) (zip all_preds all_labels)))
                  / real (length all_preds)))"

text \<open>
  The scikit-learn functions are library code, modelled from the library's documented
  behaviour. \<open>prf_divide\<close> is a quotient under \<^verbatim>\<open>zero_division=0\<close>.
\<close>

definition prf_divide :: "real \<Rightarrow> real \<Rightarrow> real" where
  "prf_divide numerator denominator = (if denominator = 0 then 0 else numerator / denominator)"

text \<open>
  \<^verbatim>\<open>precision_recall_fscore_support(y_true, y_pred, average='micro', zero_division=0)\<close> on
  one-dimensional arrays. Such targets are single-label: every value that occurs in
  \<^verbatim>\<open>y_true\<close> or \<^verbatim>\<open>y_pred\<close> is a class, \<^verbatim>\<open>pos_label\<close> is only used by
  \<^verbatim>\<open>average='binary'\<close>, and the micro average adds the true positives, the predicted
  counts and the true counts of all classes before dividing. For arrays of zeros and ones
  the classes are 0 and 1, so a cell where both arrays hold 0 is a true positive of
  class 0.
\<close>

definition present_labels :: "'a list \<Rightarrow> 'a list \<Rightarrow> 'a list" where
  "present_labels y_true y_pred = remdups (y_true @ y_pred)"

definition tp_of_class :: "'a \<Rightarrow> 'a list \<Rightarrow> 'a list \<Rightarrow> nat" where
  "tp_of_class c y_true y_pred = length (filter (\<lambda>(t, p). t = c \<and> p = c) (zip y_true y_pred))"

definition prfs_micro_1d :: "'a list \<Rightarrow> 'a list \<Rightarrow> py_error + real \<times> real \<times> real" where
  "prfs_micro_1d y_true y_pred =
     (if length y_true \<noteq> length y_pred then Inl ValueError
      else
        (let classes = present_labels y_true y_pred;
             n_tp = real (sum_list (map (\<lambda>c. tp_of_class c y_true y_pred) classes));
             n_pred = real (sum_list (map (\<lambda>c. count_list y_pred c) classes));
             n_true = real (sum_list (map (\<lambda>c. count_list y_true c) classes));
             precision = prf_divide n_tp n_pred;
             recall = prf_divide n_tp n_true;
             f_score = prf_divide (2 * precision * recall) (precision + recall)
         in Inr (precision, recall, f_score)))"

record metrics =
  m_loss :: fval
  m_accuracy :: real
  m_precision :: real
  m_recall :: real
  m_f1 :: real

text \<open>
  \<^verbatim>\<open>evaluate\<close> of \<^verbatim>\<open>production_train.py\<close> (lines 468-509). The two matrices are
  flattened before they are handed to scikit-learn (lines 499-501).
\<close>

definition evaluate :: "eval_batch list \<Rightarrow> py_error + metrics" where
  "evaluate loader =
     (let total_loss = foldl float_add (Fin 0) (map batch_loss loader);
          all_preds = collect_preds loader;
          all_labels = collect_labels loader
      in case exact_match_rate all_preds all_labels of
           Inl e \<Rightarrow> Inl e
         | Inr accuracy \<Rightarrow>
             (case prfs_micro_1d (concat all_labels) (concat all_preds) of
                Inl e \<Rightarrow> Inl e
              | Inr (precision, recall, f1) \<Rightarrow>
                  (case float_div_len total_loss (length loader) of
                     Inl e \<Rightarrow> Inl e
                   | Inr loss \<Rightarrow>
                       Inr \<lparr>m_loss = loss, m_accuracy = accuracy, m_precision = precision,
                            m_recall = recall, m_f1 = f1\<rparr>)))"

subsection \<open>The multilabel metrics of \<^verbatim>\<open>train_colab_fixed.py\<close>\<close>

text \<open>\<^verbatim>\<open>(preds > 0.5).astype(int)\<close> and \<^verbatim>\<open>labels.astype(int)\<close>, one entry.\<close>

definition to_binary :: "real \<Rightarrow> int" where
  "to_binary p = (if p > 0.5 then 1 else 0)"

definition astype_int :: "real \<Rightarrow> int" where
  "astype_int x = (if 0 \<le> x then \<lfloor>x\<rfloor> else \<lceil>x\<rceil>)"

definition count_cells :: "(int \<times> int \<Rightarrow> bool) \<Rightarrow> int list \<Rightarrow> int list \<Rightarrow> nat" where
  "count_cells P y_true y_pred = length (filter P (zip y_true y_pred))"

definition f1_of_counts :: "nat \<Rightarrow> nat \<Rightarrow> nat \<Rightarrow> real" where
  "f1_of_counts n_tp n_pred n_true =
     (let precision = prf_divide (real n_tp) (real n_pred);
          recall = prf_divide (real n_tp) (real n_true)
      in prf_divide (2 * precision * recall) (precision + recall))"

definition column :: "'a list list \<Rightarrow> nat \<Rightarrow> 'a list" where
  "column rows j = map (\<lambda>r. r ! j) rows"

record multilabel_metrics =
  micro_f1 :: real
  macro_f1 :: real
  exact_match :: real
  ml_precision :: real
  ml_recall :: real

text \<open>
  \<^verbatim>\<open>f1_score\<close>, \<^verbatim>\<open>precision_score\<close> and \<^verbatim>\<open>recall_score\<close> with \<^verbatim>\<open>zero_division=0\<close> on
  two-dimensional 0/1 matrices with two or more columns, which scikit-learn reads as
  multilabel indicators: each column is a label, and only the cells holding 1 count as
  positives. The micro average pools the counts of the columns, the macro average is the
  mean of the columns' F1. The exact-match rate is computed as in \<^verbatim>\<open>evaluate\<close>.
\<close>

definition multilabel_scores :: "int list list \<Rightarrow> int list list \<Rightarrow> py_error + multilabel_metrics" where
  "multilabel_scores labels_binary preds_binary =
     (if preds_binary = [] \<or> map length preds_binary \<noteq> map length labels_binary then Inl ValueError
      else
        (let cols = [0..<length (hd labels_binary)];
             tp = map (\<lambda>j. count_cells (\<lambda>(t, p). t = 1 \<and> p = 1)
                                (column labels_binary j) (column preds_binary j)) cols;
             n_pred = map (\<lambda>j. count_list (column preds_binary j) 1) cols;
             n_true = map (\<lambda>j. count_list (column labels_binary j) 1) cols
         in case exact_match_rate preds_binary labels_binary of
              Inl e \<Rightarrow> Inl e
            | Inr em \<Rightarrow>
                Inr \<lparr>micro_f1 = f1_of_counts (sum_list tp) (sum_list n_pred) (sum_list n_true),
                     macro_f1 = prf_divide
                        (sum_list (map (\<lambda>(t, p, l). f1_of_counts t p l) (zip tp (zip n_pred n_true))))
                        (real (length cols)),
                     exact_match = em,
                     ml_precision = prf_divide (real (sum_list tp)) (real (sum_list n_pred)),
                     ml_recall = prf_divide (real (sum_list tp)) (real (sum_list n_true))\<rparr>))"

text \<open>\<^verbatim>\<open>compute_metrics\<close> of \<^verbatim>\<open>train_colab_fixed.py\<close> (lines 108-130).\<close>

definition compute_metrics :: "real list list \<Rightarrow> real list list \<Rightarrow> py_error + multilabel_metrics" where
  "compute_metrics preds label_rows =
     multilabel_scores (map (map astype_int) label_rows) (map (map to_binary) preds)"

section \<open>The decision threshold\<close>

lemma sigmoid_gt_half: "(1 / 2 < sigmoid z) = (0 < z)"
proof -
  have pos: "0 < 1 + exp (- z)" by (simp add: add_pos_pos)
  have "(1 / 2 < sigmoid z) = (1 + exp (- z) < 2)"
    unfolding sigmoid_def using pos by (simp add: field_simps)
  also have "\<dots> = (exp (- z) < 1)" by auto
  also have "\<dots> = (0 < z)" by simp
  finally show ?thesis .
qed

lemma sigmoid_eq_half: "(sigmoid z = 1 / 2) = (z = 0)"
proof -
  have pos: "0 < 1 + exp (- z)" by (simp add: add_pos_pos)
  have "(sigmoid z = 1 / 2) = (1 + exp (- z) = 2)"
    unfolding sigmoid_def using pos by (simp add: field_simps)
  also have "\<dots> = (exp (- z) = 1)" by auto
  also have "\<dots> = (z = 0)" by simp
  finally show ?thesis .
qed

lemma predict_present_sign: "predict_present z = (if 0 < z then 1 else 0)"
  using sigmoid_gt_half [of z] by (simp add: predict_present_def)

text \<open>
  C3 (as the code has it). The comparison is strict. The prediction matrix of the
  evaluator holds, for every example and every label, 1 if \<open>sigmoid(logit) > 0.5\<close> and
  0 otherwise; in exact arithmetic that is the case exactly for a positive logit. The
  probability is 0.5 exactly for the logit 0, and that label is predicted absent. The
  thresholding of probabilities in \<^verbatim>\<open>compute_metrics\<close> is strict in the same way.
\<close>

theorem threshold_is_strict:
  "collect_preds loader
     = concat (map (\<lambda>b. map (map (\<lambda>z. if 1 / 2 < sigmoid z then 1 else 0)) (batch_logits b)) loader)
   \<and> (predict_present z = 1) = (1 / 2 < sigmoid z)
   \<and> (1 / 2 < sigmoid z) = (0 < z)
   \<and> (sigmoid z = 1 / 2) = (z = 0)
   \<and> predict_present 0 = 0
   \<and> (to_binary p = 1) = (1 / 2 < p)"
proof -
  have a: "predict_present = (\<lambda>z. if 1 / 2 < sigmoid z then 1 else 0)"
    by (rule ext) (simp add: predict_present_def)
  have b: "(predict_present z = 1) = (1 / 2 < sigmoid z)" by (simp add: predict_present_def)
  have c: "predict_present 0 = 0" by (simp add: predict_present_sign)
  have d: "(to_binary p = 1) = (1 / 2 < p)" by (simp add: to_binary_def)
  show ?thesis
    unfolding collect_preds_def a [symmetric]
    using b c d sigmoid_gt_half [of z] sigmoid_eq_half [of z] by simp
qed

text \<open>
  C3 (as stated) fails at the boundary: for the logit 0 the probability is exactly 0.5,
  which is \<open>\<ge> 0.5\<close>, yet the evaluator predicts the label absent. On a validation set of
  one example with one label that is present, it reports no exact match.
\<close>

theorem threshold_at_half_counterexample:
  "sigmoid 0 = 1 / 2 \<and> predict_present 0 = 0
   \<and> collect_preds [\<lparr>batch_logits = [[0]], batch_labels = [[1]], batch_loss = Fin 1\<rparr>] = [[0]]"
  by (simp add: sigmoid_def predict_present_def collect_preds_def)

section \<open>Metrics on the example of the specification\<close>

text \<open>
  C4. Ground truth \<^verbatim>\<open>[[1,0,1],[0,1,0]]\<close>, predictions \<^verbatim>\<open>[[1,0,0],[0,1,0]]\<close>. The
  exact-match rate of \<^verbatim>\<open>evaluate\<close> is 0.5. Its precision, recall and F1 are all 5/6 and
  not 0.8: on the flattened arrays the three cells where truth and prediction are both 0
  count as true positives of class 0, and the missed cell as a false positive of class 0
  and a false negative of class 1, so the counts are TP = 5, FP = 1, FN = 1. The last
  conjunct runs the whole of \<^verbatim>\<open>evaluate\<close> on logits that give these predictions. The
  multilabel metrics of \<^verbatim>\<open>train_colab_fixed.py\<close>, given the matrices unflattened, count
  TP = 2, FP = 0, FN = 1 and return 0.8.
\<close>

theorem flattened_micro_f1_on_spec_example:
  "exact_match_rate [[1, 0, 0], [0, 1, 0::real]] [[1, 0, 1], [0, 1, 0]] = Inr (1 / 2)
   \<and> prfs_micro_1d (concat [[1, 0, 1], [0, 1, 0::real]]) (concat [[1, 0, 0], [0, 1, 0]])
       = Inr (5 / 6, 5 / 6, 5 / 6)
   \<and> multilabel_scores [[1, 0, 1], [0, 1, 0]] [[1, 0, 0], [0, 1, 0]]
       = Inr \<lparr>micro_f1 = 4 / 5, macro_f1 = 2 / 3, exact_match = 1 / 2,
              ml_precision = 1, ml_recall = 2 / 3\<rparr>
   \<and> evaluate [\<lparr>batch_logits = [[2, - 2, - 2], [- 2, 2, - 2]],
                 batch_labels = [[1, 0, 1], [0, 1, 0]], batch_loss = Fin 1\<rparr>]
       = Inr \<lparr>m_loss = Fin 1, m_accuracy = 1 / 2, m_precision = 5 / 6, m_recall = 5 / 6,
              m_f1 = 5 / 6\<rparr>"
proof -
  have a: "exact_match_rate [[1, 0, 0], [0, 1, 0::real]] [[1, 0, 1], [0, 1, 0]] = Inr (1 / 2)"
    by (simp add: exact_match_rate_def)
  have b: "prfs_micro_1d (concat [[1, 0, 1], [0, 1, 0::real]]) (concat [[1, 0, 0], [0, 1, 0]])
       = Inr (5 / 6, 5 / 6, 5 / 6)"
    by (simp add: prfs_micro_1d_def present_labels_def tp_of_class_def prf_divide_def Let_def)
  have cols: "[0..<length (hd [[1, 0, 1], [0, 1, 0::int]])] = [0, 1, 2]"
    by (simp add: upt_rec)
  have c: "multilabel_scores [[1, 0, 1], [0, 1, 0]] [[1, 0, 0], [0, 1, 0]]
       = Inr \<lparr>micro_f1 = 4 / 5, macro_f1 = 2 / 3, exact_match = 1 / 2,
              ml_precision = 1, ml_recall = 2 / 3\<rparr>"
    unfolding multilabel_scores_def cols
    by (simp add: count_cells_def column_def f1_of_counts_def prf_divide_def
        exact_match_rate_def Let_def)
  have p: "collect_preds [\<lparr>batch_logits = [[2, - 2, - 2], [- 2, 2, - 2]],
                 batch_labels = [[1, 0, 1], [0, 1, 0]], batch_loss = Fin 1\<rparr>]
       = [[1, 0, 0], [0, 1, 0]]"
    by (simp add: collect_preds_def predict_present_sign)
  have l: "collect_labels [\<lparr>batch_logits = [[2, - 2, - 2], [- 2, 2, - 2]],
                 batch_labels = [[1, 0, 1], [0, 1, 0]], batch_loss = Fin 1\<rparr>]
       = [[1, 0, 1], [0, 1, 0]]"
    by (simp add: collect_labels_def)
  have d: "evaluate [\<lparr>batch_logits = [[2, - 2, - 2], [- 2, 2, - 2]],
                 batch_labels = [[1, 0, 1], [0, 1, 0]], batch_loss = Fin 1\<rparr>]
       = Inr \<lparr>m_loss = Fin 1, m_accuracy = 1 / 2, m_precision = 5 / 6, m_recall = 5 / 6,
              m_f1 = 5 / 6\<rparr>"
    unfolding evaluate_def Let_def p l a b by simp
  from a b c d show ?thesis by blast
qed


section \<open>Model selection and early stopping\<close>

text \<open>
  The variables of the epoch loop of \<^verbatim>\<open>main\<close> in \<^verbatim>\<open>production_train.py\<close> (lines
  585-612). \<^verbatim>\<open>best_model_state\<close> is a copy of the scorer's state after an epoch; it is
  kept as the number of that epoch (counted from 0). \<open>epochs_run\<close> counts the evaluations
  made, and \<open>stopped_early\<close> records that the loop was left through \<^verbatim>\<open>break\<close>.
\<close>

record selection_state =
  best_f1 :: real
  patience_counter :: int
  best_epoch :: "nat option"
  epochs_run :: nat
  stopped_early :: bool

text \<open>\<^verbatim>\<open>best_f1 = 0\<close>, \<^verbatim>\<open>patience_counter = 0\<close>, \<^verbatim>\<open>best_model_state = None\<close>.\<close>

definition selection_start :: selection_state where
  "selection_start =
     \<lparr>best_f1 = 0, patience_counter = 0, best_epoch = None, epochs_run = 0, stopped_early = False\<rparr>"

text \<open>
  The loop body after training and evaluation, for the validation F1 of each epoch in
  turn: a new best needs \<^verbatim>\<open>f1 > best_f1 + min_delta\<close>; otherwise the counter goes up
  and the loop breaks once \<^verbatim>\<open>patience_counter >= patience\<close>.
\<close>

fun epoch_loop :: "real \<Rightarrow> int \<Rightarrow> real list \<Rightarrow> selection_state \<Rightarrow> selection_state" where
  "epoch_loop min_delta patience [] s = s"
| "epoch_loop min_delta patience (f1 # rest) s =
     (let s1 = s\<lparr>epochs_run := Suc (epochs_run s)\<rparr>
      in if f1 > best_f1 s1 + min_delta then
           epoch_loop min_delta patience rest
             (s1\<lparr>best_f1 := f1, patience_counter := 0, best_epoch := Some (epochs_run s)\<rparr>)
         else
           (let s2 = s1\<lparr>patience_counter := patience_counter s1 + 1\<rparr>
            in if patience_counter s2 \<ge> patience then s2\<lparr>stopped_early := True\<rparr>
               else epoch_loop min_delta patience rest s2))"

text \<open>
  \<^verbatim>\<open>for epoch in range(CONFIG["epochs"])\<close>: at most \<open>epochs\<close> rounds. \<open>val_f1\<close> lists
  the F1 that the evaluation of each round returns.
\<close>

definition run_epochs :: "nat \<Rightarrow> int \<Rightarrow> real \<Rightarrow> real list \<Rightarrow> selection_state" where
  "run_epochs epochs patience min_delta val_f1 =
     epoch_loop min_delta patience (take epochs val_f1) selection_start"

text \<open>
  C5 (as the code has it). With patience 2 and minimum delta 0.01, the sequence
  0.50, 0.50, 0.505, 0.504 stops the loop after the third evaluation: the first is a new
  best (0.50 exceeds 0 + 0.01), the second and the third do not exceed 0.51, and the
  counter reaches 2 at the third. The fourth value is never evaluated. After two
  evaluations the loop has not stopped.
\<close>

theorem early_stop_after_third_evaluation:
  "run_epochs 50 2 0.01 [0.50, 0.50, 0.505, 0.504]
     = \<lparr>best_f1 = 0.50, patience_counter = 2, best_epoch = Some 0, epochs_run = 3,
        stopped_early = True\<rparr>
   \<and> run_epochs 50 2 0.01 [0.50, 0.50]
     = \<lparr>best_f1 = 0.50, patience_counter = 1, best_epoch = Some 0, epochs_run = 2,
        stopped_early = False\<rparr>"
  by (simp add: run_epochs_def selection_start_def Let_def)

text \<open>
  C5 (as stated) fails: the stop does not wait for the fourth evaluation. Given the first
  three values alone the loop already breaks, and on the whole sequence the number of
  evaluations made is not 4.
\<close>

theorem early_stop_fourth_evaluation_counterexample:
  "stopped_early (run_epochs 50 2 0.01 [0.50, 0.50, 0.505])
   \<and> epochs_run (run_epochs 50 2 0.01 [0.50, 0.50, 0.505, 0.504]) \<noteq> 4"
  by (simp add: run_epochs_def selection_start_def Let_def)

section \<open>Export\<close>

text \<open>
  The end of \<^verbatim>\<open>main\<close> in \<^verbatim>\<open>production_train.py\<close> (lines 629-656) writes files and
  calls \<^verbatim>\<open>torch.onnx.export\<close>. Its effect is the list of these operations with their
  arguments, in order. The export lines of \<^verbatim>\<open>train_colab_1m.py\<close> (291-348) are not
  modelled: \<^verbatim>\<open>import os\<close> at line 323 makes \<^verbatim>\<open>os\<close> a local name of its \<^verbatim>\<open>main\<close>, so
  the use of \<^verbatim>\<open>os\<close> at line 178 raises \<^verbatim>\<open>UnboundLocalError\<close> before they are reached.
\<close>

datatype json = JString string | JList "json list" | JObject "(string \<times> json) list"

text \<open>
  A tensor with its element type: the tokenizer returns 64-bit integer tensors
  (\<^verbatim>\<open>return_tensors="pt"\<close>), the scorer returns floating-point logits.
\<close>

datatype dtype = Int64 | Float32

datatype tensor = IntTensor "int list list" | FloatTensor "real list list"

fun dtype_of :: "tensor \<Rightarrow> dtype" where
  "dtype_of (IntTensor t) = Int64"
| "dtype_of (FloatTensor t) = Float32"

text \<open>The arguments of \<^verbatim>\<open>torch.onnx.export\<close> besides the scorer itself.\<close>

record onnx_export_call =
  example_inputs :: "tensor list"
  onnx_path :: string
  input_names :: "string list"
  output_names :: "string list"
  opset_version :: nat
  do_constant_folding :: bool

datatype file_op =
    MakeDirs string
  | JsonDump string json
  | SaveTokenizer string
  | OnnxExport onnx_export_call

text \<open>
  Lines 640-656: \<^verbatim>\<open>dummy_input\<close> is the tokenizer's output for a fixed sentence, padded
  to \<^verbatim>\<open>max_length\<close>, as a batch of one; its \<^verbatim>\<open>input_ids\<close> and \<^verbatim>\<open>attention_mask\<close> are
  the example inputs of the export.
\<close>

definition production_onnx_call :: "tokenizer \<Rightarrow> nat \<Rightarrow> string \<Rightarrow> onnx_export_call" where
  "production_onnx_call tokenizer max_length output_dir =
     (let dummy_input = tokenizer ''Find all functions f: R to R'' max_length
      in \<lparr>example_inputs = [IntTensor [fst dummy_input], IntTensor [snd dummy_input]],
          onnx_path = output_dir @ ''/substitution_model.onnx'',
          input_names = [''input_ids'', ''attention_mask''],
          output_names = [''logits''],
          opset_version = 14,
          do_constant_folding = True\<rparr>)"

text \<open>
  Lines 629-656, for the tokenizer, \<^verbatim>\<open>CONFIG["max_length"]\<close>, \<^verbatim>\<open>CONFIG["output_dir"]\<close>
  and the vocabulary: the directory, \<^verbatim>\<open>json.dump(VOCAB, f)\<close> into \<^verbatim>\<open>vocab.json\<close>, the
  tokenizer files, the ONNX export.
\<close>

definition production_export :: "tokenizer \<Rightarrow> nat \<Rightarrow> string \<Rightarrow> string list \<Rightarrow> file_op list" where
  "production_export tokenizer max_length output_dir vocab =
     [MakeDirs output_dir,
      JsonDump (output_dir @ ''/vocab.json'') (JList (map JString vocab)),
      SaveTokenizer output_dir,
      OnnxExport (production_onnx_call tokenizer max_length output_dir)]"

text \<open>
  The interface of the graph that \<^verbatim>\<open>torch.onnx.export\<close> writes, modelled from the
  library's documented behaviour: the scorer is traced on the example inputs; the graph's
  inputs get the names of \<^verbatim>\<open>input_names\<close>, in order, with the element types of the
  example tensors, and its outputs the names of \<^verbatim>\<open>output_names\<close> with the element type
  of what the scorer returns. \<open>traced_logits\<close> is the logit matrix the scorer returns on
  the example inputs.
\<close>

record graph_interface =
  graph_inputs :: "(string \<times> dtype) list"
  graph_outputs :: "(string \<times> dtype) list"

definition exported_interface :: "onnx_export_call \<Rightarrow> real list list \<Rightarrow> graph_interface" where
  "exported_interface c traced_logits =
     \<lparr>graph_inputs = zip (input_names c) (map dtype_of (example_inputs c)),
      graph_outputs = zip (output_names c) [dtype_of (FloatTensor traced_logits)]\<rparr>"

text \<open>
  C6 (as the code has it). The export of \<^verbatim>\<open>production_train.py\<close> produces a graph with
  two named integer-tensor inputs, \<^verbatim>\<open>input_ids\<close> and \<^verbatim>\<open>attention_mask\<close> in that order,
  and one named float-tensor output, \<^verbatim>\<open>logits\<close>, whatever the tokenizer, the sequence
  length, the output directory and the traced logits are. Alongside it, in the same output
  directory, it writes \<^verbatim>\<open>vocab.json\<close>, the JSON list of the labels of \<^verbatim>\<open>VOCAB\<close> in index
  order, all \<^verbatim>\<open>NUM_LABELS\<close> of them.
\<close>

theorem export_interface:
  "OnnxExport (production_onnx_call tok ml output_dir)
        \<in> set (production_export tok ml output_dir VOCAB)
   \<and> exported_interface (production_onnx_call tok ml output_dir) traced_logits
        = \<lparr>graph_inputs = [(''input_ids'', Int64), (''attention_mask'', Int64)],
           graph_outputs = [(''logits'', Float32)]\<rparr>
   \<and> onnx_path (production_onnx_call tok ml output_dir) = output_dir @ ''/substitution_model.onnx''
   \<and> JsonDump (output_dir @ ''/vocab.json'') (JList (map JString VOCAB))
        \<in> set (production_export tok ml output_dir VOCAB)
   \<and> length (map JString VOCAB) = NUM_LABELS
   \<and> map JString VOCAB ! 0 = JString ''x = 0''
   \<and> map JString VOCAB ! 14 = JString ''Homogenize''
   \<and> map JString VOCAB ! 19 = JString ''Consider p = 2 separately''"
proof -
  have a: "OnnxExport (production_onnx_call tok ml output_dir)
        \<in> set (production_export tok ml output_dir VOCAB)"
    by (simp add: production_export_def)
  have b: "exported_interface (production_onnx_call tok ml output_dir) traced_logits
        = \<lparr>graph_inputs = [(''input_ids'', Int64), (''attention_mask'', Int64)],
           graph_outputs = [(''logits'', Float32)]\<rparr>"
    by (simp add: exported_interface_def production_onnx_call_def Let_def)
  have c: "onnx_path (production_onnx_call tok ml output_dir) = output_dir @ ''/substitution_model.onnx''"
    by (simp add: production_onnx_call_def Let_def)
  have d: "JsonDump (output_dir @ ''/vocab.json'') (JList (map JString VOCAB))
        \<in> set (production_export tok ml output_dir VOCAB)"
    by (simp add: production_export_def)
  have e: "length (map JString VOCAB) = NUM_LABELS" by (simp add: NUM_LABELS_def)
  have f: "map JString VOCAB ! 0 = JString ''x = 0''"
    "map JString VOCAB ! 14 = JString ''Homogenize''"
    "map JString VOCAB ! 19 = JString ''Consider p = 2 separately''"
    by (simp_all add: VOCAB_def)
  from a b c d e f show ?thesis by blast
qed

text \<open>
  C6 (as stated) fails on the name of the first input: the exported graph has no input
  called \<^verbatim>\<open>token_ids\<close>; its first input is \<^verbatim>\<open>input_ids\<close>.
\<close>

theorem token_ids_counterexample:
  "map fst (graph_inputs (exported_interface
       (production_onnx_call blank_tokenizer 256 ''lemma_model'') [replicate 20 0]))
     = [''input_ids'', ''attention_mask'']
   \<and> ''token_ids'' \<notin> set (map fst (graph_inputs (exported_interface
       (production_onnx_call blank_tokenizer 256 ''lemma_model'') [replicate 20 0])))"
  by (simp add: exported_interface_def production_onnx_call_def Let_def)

end
